theory Spec2Isabelle
  imports Complex_Main "HOL-Library.AList"
begin

section \<open>JavaScript values\<close>

text \<open>
  The service is written in JavaScript and handles untyped data: documents pushed by
  Firestore, JSON bodies answered by the price data service, and the JSON object found
  in the completion text. The model keeps them untyped, as one datatype of values.

  A number is an IEEE double in the source. The model keeps the three kinds of double the
  code distinguishes (\<open>Number.isFinite\<close>, comparisons with \<open>NaN\<close>) and takes the finite
  ones as real numbers; rounding is not modelled. A string is a list of code units; the
  model has the code units below 256. An object is the list of its own properties in
  insertion order, read with \<open>map_of\<close>.
\<close>

datatype jsnum = Finite real | NaN | PosInf | NegInf

datatype jsval =
    VUndefined
  | VNull
  | VBool bool
  | VNum jsnum
  | VStr string
  | VArr "jsval list"
  | VObj "(string \<times> jsval) list"

text \<open>
  What the code can throw: \<open>new Error(message)\<close> of its own, the engine's \<open>TypeError\<close>
  and the \<open>SyntaxError\<close> of \<open>JSON.parse\<close>, and the rejections of the HTTP client and
  of the Firestore client.
\<close>

datatype js_error =
    Error string
  | TypeError
  | SyntaxError
  | AxiosError string
  | FirestoreError string

definition is_finite :: "jsnum \<Rightarrow> bool" where
  "is_finite n = (case n of Finite r \<Rightarrow> True | _ \<Rightarrow> False)"

text \<open>\<open>a < b\<close> on numbers: false as soon as one side is \<open>NaN\<close>.\<close>

fun jsnum_less :: "jsnum \<Rightarrow> jsnum \<Rightarrow> bool" where
  "jsnum_less NaN b = False"
| "jsnum_less a NaN = False"
| "jsnum_less (Finite x) (Finite y) = (x < y)"
| "jsnum_less (Finite x) PosInf = True"
| "jsnum_less (Finite x) NegInf = False"
| "jsnum_less PosInf b = False"
| "jsnum_less NegInf NegInf = False"
| "jsnum_less NegInf b = True"

text \<open>\<open>typeof v\<close>, \<open>Number.isFinite(v)\<close>, \<open>Array.isArray(v)\<close> and truthiness (\<open>!!v\<close>).\<close>

fun typeof :: "jsval \<Rightarrow> string" where
  "typeof VUndefined = ''undefined''"
| "typeof VNull = ''object''"
| "typeof (VBool b) = ''boolean''"
| "typeof (VNum n) = ''number''"
| "typeof (VStr s) = ''string''"
| "typeof (VArr xs) = ''object''"
| "typeof (VObj kvs) = ''object''"

fun Number_isFinite :: "jsval \<Rightarrow> bool" where
  "Number_isFinite (VNum n) = is_finite n"
| "Number_isFinite v = False"

fun Array_isArray :: "jsval \<Rightarrow> bool" where
  "Array_isArray (VArr xs) = True"
| "Array_isArray v = False"

fun truthy :: "jsval \<Rightarrow> bool" where
  "truthy VUndefined = False"
| "truthy VNull = False"
| "truthy (VBool b) = b"
| "truthy (VNum n) = (n \<noteq> NaN \<and> n \<noteq> Finite 0)"
| "truthy (VStr s) = (s \<noteq> [])"
| "truthy (VArr xs) = True"
| "truthy (VObj kvs) = True"

text \<open>
  \<open>v.k\<close> for one of the property names this program reads (\<open>score\<close>, \<open>indicators\<close>,
  \<open>timestamp\<close>, \<open>close\<close>, \<open>data\<close>, ...): none of them is a property of an array, a string
  or a prototype, so only an object's own properties answer. Reading a property of
  \<open>null\<close> or \<open>undefined\<close> throws (\<open>get_prop\<close>); the optional chain \<open>v?.k\<close> gives
  \<open>undefined\<close> there (\<open>get_own\<close>).
\<close>

fun get_own :: "jsval \<Rightarrow> string \<Rightarrow> jsval" where
  "get_own (VObj kvs) k = (case map_of kvs k of Some v \<Rightarrow> v | None \<Rightarrow> VUndefined)"
| "get_own v k = VUndefined"

fun get_prop :: "jsval \<Rightarrow> string \<Rightarrow> js_error + jsval" where
  "get_prop VUndefined k = Inl TypeError"
| "get_prop VNull k = Inl TypeError"
| "get_prop v k = Inr (get_own v k)"

text \<open>\<open>a || b\<close> and \<open>a ?? b\<close> (both operands are values here, so laziness does not show).\<close>

definition js_or :: "jsval \<Rightarrow> jsval \<Rightarrow> jsval" where
  "js_or a b = (if truthy a then a else b)"

definition js_nullish :: "jsval \<Rightarrow> jsval \<Rightarrow> jsval" where
  "js_nullish a b = (if a = VUndefined \<or> a = VNull then b else a)"

text \<open>
  \<open>k in v\<close>: a \<open>TypeError\<close> on a primitive. The own property names of an array are its
  indices in canonical decimal and \<open>length\<close>. Inherited names (\<open>constructor\<close>,
  \<open>toString\<close>, ...) are outside the model; the code asks for none of them.
\<close>

definition is_digit :: "char \<Rightarrow> bool" where
  "is_digit c = (48 \<le> (of_char c :: nat) \<and> (of_char c :: nat) \<le> 57)"

definition digit_val :: "char \<Rightarrow> nat" where
  "digit_val c = of_char c - 48"

definition digits_val :: "string \<Rightarrow> nat" where
  "digits_val ds = foldl (\<lambda>acc c. 10 * acc + digit_val c) 0 ds"

definition is_array_index :: "string \<Rightarrow> nat \<Rightarrow> bool" where
  "is_array_index k n =
     (k \<noteq> [] \<and> list_all is_digit k \<and> (hd k = CHR ''0'' \<longrightarrow> length k = 1) \<and> digits_val k < n)"

fun js_in :: "string \<Rightarrow> jsval \<Rightarrow> js_error + bool" where
  "js_in k (VObj kvs) = Inr (map_of kvs k \<noteq> None)"
| "js_in k (VArr xs) = Inr (k = ''length'' \<or> is_array_index k (length xs))"
| "js_in k v = Inl TypeError"

section \<open>validateOutput\<close>

text \<open>
  \<^verbatim>\<open>
  validateOutput(obj) {
    const required = ["score", "analysis", "reasoning", "key_factors"];
    for (const k of required) if (!(k in obj)) throw new Error(`Missing: ${k}`);
    if (typeof obj.score !== "number" || obj.score < 1 || obj.score > 100 ||
        !Number.isFinite(obj.score))
      throw new Error("score must be 1..100 number");
    if (!Array.isArray(obj.key_factors))
      throw new Error("key_factors must be array");
  }
  \<close>
\<close>

definition required :: "string list" where
  "required = [''score'', ''analysis'', ''reasoning'', ''key_factors'']"

fun check_required :: "jsval \<Rightarrow> string list \<Rightarrow> js_error + unit" where
  "check_required obj [] = Inr ()"
| "check_required obj (k # ks) =
     (case js_in k obj of
        Inl e \<Rightarrow> Inl e
      | Inr present \<Rightarrow>
          if \<not> present then Inl (Error (''Missing: '' @ k)) else check_required obj ks)"

definition score_rejected :: "jsval \<Rightarrow> bool" where
  "score_rejected score =
     (case score of
        VNum n \<Rightarrow> jsnum_less n (Finite 1) \<or> jsnum_less (Finite 100) n \<or> \<not> is_finite n
      | _ \<Rightarrow> True)"

definition validateOutput :: "jsval \<Rightarrow> js_error + unit" where
  "validateOutput obj =
     (case check_required obj required of
        Inl e \<Rightarrow> Inl e
      | Inr _ \<Rightarrow>
          if typeof (get_own obj ''score'') \<noteq> ''number'' \<or> score_rejected (get_own obj ''score'')
          then Inl (Error ''score must be 1..100 number'')
          else if \<not> Array_isArray (get_own obj ''key_factors'')
          then Inl (Error ''key_factors must be array'')
          else Inr ())"

section \<open>The built-in functions of the engine\<close>

text \<open>
  \<open>JSON.parse\<close>, \<open>JSON.stringify\<close>, the conversion of a number to a string and of a
  string to a number belong to the JavaScript engine, not to this repository. Every
  function of the model that calls one of them takes the engine as its first argument,
  and the theorems hold for every engine. \<open>JSON_parse\<close> answers \<open>None\<close> where
  \<open>JSON.parse\<close> throws its \<open>SyntaxError\<close>.
\<close>

record engine =
  JSON_parse :: "string \<Rightarrow> jsval option"
  JSON_stringify :: "jsval \<Rightarrow> string"
  Number_toString :: "jsnum \<Rightarrow> string"
  StringToNumber :: "string \<Rightarrow> jsnum"

definition join :: "string \<Rightarrow> string list \<Rightarrow> string" where
  "join sep xs = (case xs of [] \<Rightarrow> [] | y # ys \<Rightarrow> foldl (\<lambda>acc z. acc @ sep @ z) y ys)"

text \<open>\<open>`${v}`\<close>: the string of a value; an array joins its elements with commas.\<close>

fun ToString :: "engine \<Rightarrow> jsval \<Rightarrow> string" where
  "ToString E VUndefined = ''undefined''"
| "ToString E VNull = ''null''"
| "ToString E (VBool b) = (if b then ''true'' else ''false'')"
| "ToString E (VNum n) = Number_toString E n"
| "ToString E (VStr s) = s"
| "ToString E (VArr xs) =
     join '','' (map (\<lambda>x. if x = VUndefined \<or> x = VNull then [] else ToString E x) xs)"
| "ToString E (VObj kvs) = ''[object Object]''"

text \<open>The number of a value, as the operator \<open>-\<close> takes it.\<close>

fun ToNumber :: "engine \<Rightarrow> jsval \<Rightarrow> jsnum" where
  "ToNumber E VUndefined = NaN"
| "ToNumber E VNull = Finite 0"
| "ToNumber E (VBool b) = Finite (if b then 1 else 0)"
| "ToNumber E (VNum n) = n"
| "ToNumber E (VStr s) = StringToNumber E s"
| "ToNumber E (VArr xs) = StringToNumber E (ToString E (VArr xs))"
| "ToNumber E (VObj kvs) = NaN"

text \<open>
  \<open>a - b\<close> on numbers. On finite operands the model subtracts reals: the double result
  has the same sign, which is all the sort below reads.
\<close>

fun jsnum_sub :: "jsnum \<Rightarrow> jsnum \<Rightarrow> jsnum" where
  "jsnum_sub NaN b = NaN"
| "jsnum_sub a NaN = NaN"
| "jsnum_sub (Finite x) (Finite y) = Finite (x - y)"
| "jsnum_sub (Finite x) PosInf = NegInf"
| "jsnum_sub (Finite x) NegInf = PosInf"
| "jsnum_sub PosInf PosInf = NaN"
| "jsnum_sub PosInf b = PosInf"
| "jsnum_sub NegInf NegInf = NaN"
| "jsnum_sub NegInf b = NegInf"

text \<open>
  \<open>xs.sort(comparefn)\<close>. The sort is stable, and \<open>y\<close> stays before \<open>x\<close> exactly when
  \<open>comparefn(x, y) > 0\<close>; a \<open>NaN\<close> from the comparator counts as \<open>0\<close>. For a comparator
  that orders the elements consistently every engine returns this list; for any other
  the language leaves the order to the engine, and the model is one such engine.
\<close>

fun insort_cmp :: "('a \<Rightarrow> 'a \<Rightarrow> jsnum) \<Rightarrow> 'a \<Rightarrow> 'a list \<Rightarrow> 'a list" where
  "insort_cmp c x [] = [x]"
| "insort_cmp c x (y # ys) =
     (if jsnum_less (Finite 0) (c x y) then y # insort_cmp c x ys else x # y # ys)"

definition Array_sort :: "('a \<Rightarrow> 'a \<Rightarrow> jsnum) \<Rightarrow> 'a list \<Rightarrow> 'a list" where
  "Array_sort c xs = foldr (insort_cmp c) xs []"

text \<open>\<open>xs.slice(-n)\<close>, \<open>s.slice(a, b)\<close>, \<open>s.indexOf(c)\<close> and \<open>s.lastIndexOf(c)\<close>.\<close>

definition slice_last :: "nat \<Rightarrow> 'a list \<Rightarrow> 'a list" where
  "slice_last n xs = drop (length xs - n) xs"

definition slice :: "nat \<Rightarrow> nat \<Rightarrow> 'a list \<Rightarrow> 'a list" where
  "slice a b xs = take (b - a) (drop a xs)"

definition indexOf :: "char \<Rightarrow> string \<Rightarrow> nat option" where
  "indexOf c s = (if c \<in> set s then Some (length (takeWhile (\<lambda>x. x \<noteq> c) s)) else None)"

definition lastIndexOf :: "char \<Rightarrow> string \<Rightarrow> nat option" where
  "lastIndexOf c s =
     (if c \<in> set s then Some (length s - 1 - length (takeWhile (\<lambda>x. x \<noteq> c) (rev s))) else None)"

section \<open>parseJsonFromText\<close>

text \<open>
  \<^verbatim>\<open>
  parseJsonFromText(text) {
    if (!text || typeof text !== "string") throw new Error("Empty AI response");
    const fenced = text.match(/```json\s*([\s\S]*?)\s*```/i);
    if (fenced && fenced[1]) return JSON.parse(fenced[1]);
    try {
      return JSON.parse(text);
    } catch (_) {}
    const first = text.indexOf("{");
    const last = text.lastIndexOf("}");
    if (first !== -1 && last !== -1 && last > first) {
      return JSON.parse(text.slice(first, last + 1));
    }
    throw new Error("No JSON found in AI response");
  }
  \<close>

  The regular expression is modelled as the backtracking matcher runs it: each
  quantifier lists what it can leave to the rest of the pattern, in the order in which
  it tries (the greedy \<open>\s*\<close> the longest run first, the lazy group the shortest first),
  the first alternative under which the rest of the pattern matches wins, and the
  match starts at the leftmost place where there is one. The flag \<open>i\<close> lets the letters
  of \<open>json\<close> stand in either case.
\<close>

definition js_space :: "char \<Rightarrow> bool" where
  "js_space c = ((of_char c :: nat) \<in> {9, 10, 11, 12, 13, 32, 160})"

definition lower :: "char \<Rightarrow> char" where
  "lower c = (if 65 \<le> (of_char c :: nat) \<and> (of_char c :: nat) \<le> 90
              then char_of ((of_char c :: nat) + 32) else c)"

fun starts_with :: "string \<Rightarrow> string \<Rightarrow> bool" where
  "starts_with [] s = True"
| "starts_with (p # ps) [] = False"
| "starts_with (p # ps) (c # cs) = (c = p \<and> starts_with ps cs)"

fun starts_with_ci :: "string \<Rightarrow> string \<Rightarrow> bool" where
  "starts_with_ci [] s = True"
| "starts_with_ci (p # ps) [] = False"
| "starts_with_ci (p # ps) (c # cs) = (lower c = lower p \<and> starts_with_ci ps cs)"

text \<open>The text after the leftmost occurrence of \<open>p\<close>, letters in either case.\<close>

fun after_first_ci :: "string \<Rightarrow> string \<Rightarrow> string option" where
  "after_first_ci p [] = (if p = [] then Some [] else None)"
| "after_first_ci p (c # cs) =
     (if starts_with_ci p (c # cs) then Some (drop (length p) (c # cs))
      else after_first_ci p cs)"

text \<open>The text before the leftmost occurrence of \<open>p\<close>.\<close>

fun before_first :: "string \<Rightarrow> string \<Rightarrow> string option" where
  "before_first p [] = (if p = [] then Some [] else None)"
| "before_first p (c # cs) =
     (if starts_with p (c # cs) then Some []
      else map_option ((#) c) (before_first p cs))"

definition fence :: string where
  "fence = ''```''"

definition fence_json :: string where
  "fence_json = ''```json''"

fun first_success :: "('a \<Rightarrow> 'b option) \<Rightarrow> 'a list \<Rightarrow> 'b option" where
  "first_success f [] = None"
| "first_success f (x # xs) = (case f x of Some y \<Rightarrow> Some y | None \<Rightarrow> first_success f xs)"

text \<open>What \<open>\s*\<close> can leave of the input, the longest run of white space taken first.\<close>

fun greedy_space :: "string \<Rightarrow> string list" where
  "greedy_space [] = [[]]"
| "greedy_space (c # cs) = (if js_space c then greedy_space cs @ [c # cs] else [c # cs])"

text \<open>What \<open>([\s\S]*?)\<close> can capture and leave, the shortest capture first.\<close>

fun lazy_any :: "string \<Rightarrow> (string \<times> string) list" where
  "lazy_any [] = [([], [])]"
| "lazy_any (c # cs) = ([], c # cs) # map (\<lambda>(g, rest). (c # g, rest)) (lazy_any cs)"

text \<open>
  The end of the pattern, \<open>\s*```\<close>, after the group has captured \<open>g\<close>; the group
  and the end; and the whole pattern at the start of \<open>s\<close>. The result is the capture.
\<close>

definition closing_fence :: "string \<Rightarrow> string \<Rightarrow> string option" where
  "closing_fence g r2 =
     first_success (\<lambda>r3. if starts_with fence r3 then Some g else None) (greedy_space r2)"

definition group_and_fence :: "string \<Rightarrow> string option" where
  "group_and_fence r1 = first_success (\<lambda>(g, r2). closing_fence g r2) (lazy_any r1)"

definition match_at :: "string \<Rightarrow> string option" where
  "match_at s =
     (if starts_with_ci fence_json s
      then first_success group_and_fence (greedy_space (drop (length fence_json) s))
      else None)"

text \<open>\<open>fenced[1]\<close> when the expression matches, \<open>None\<close> when \<open>fenced\<close> is \<open>null\<close>.\<close>

fun fenced_match :: "string \<Rightarrow> string option" where
  "fenced_match [] = match_at []"
| "fenced_match (c # cs) =
     (case match_at (c # cs) of Some g \<Rightarrow> Some g | None \<Rightarrow> fenced_match cs)"

text \<open>
  The same in closed form (\<open>fenced_match_eq\<close> below): the match starts at the leftmost
  \<open>```json\<close>, and the group is what stands between the white space after it and the
  leftmost three backquotes that follow, less the white space at its end.
\<close>

definition strip_end :: "string \<Rightarrow> string" where
  "strip_end s = rev (dropWhile js_space (rev s))"

definition fenced_group :: "string \<Rightarrow> string option" where
  "fenced_group text =
     (case after_first_ci fence_json text of
        None \<Rightarrow> None
      | Some rest \<Rightarrow>
          (case before_first fence (dropWhile js_space rest) of
             None \<Rightarrow> None
           | Some inner \<Rightarrow> Some (strip_end inner)))"

text \<open>\<open>text.slice(first, last + 1)\<close> under the guard of the last \<open>if\<close>.\<close>

definition brace_slice :: "string \<Rightarrow> string option" where
  "brace_slice s =
     (case indexOf (CHR ''{'') s of
        None \<Rightarrow> None
      | Some i_first \<Rightarrow>
          (case lastIndexOf (CHR ''}'') s of
             None \<Rightarrow> None
           | Some i_last \<Rightarrow>
               if i_last > i_first then Some (slice i_first (i_last + 1) s) else None))"

definition JSON_parse_or_throw :: "engine \<Rightarrow> string \<Rightarrow> js_error + jsval" where
  "JSON_parse_or_throw E s = (case JSON_parse E s of Some v \<Rightarrow> Inr v | None \<Rightarrow> Inl SyntaxError)"

definition parse_unfenced :: "engine \<Rightarrow> string \<Rightarrow> js_error + jsval" where
  "parse_unfenced E s =
     (case JSON_parse E s of
        Some v \<Rightarrow> Inr v
      | None \<Rightarrow>
          (case brace_slice s of
             Some b \<Rightarrow> JSON_parse_or_throw E b
           | None \<Rightarrow> Inl (Error ''No JSON found in AI response'')))"

definition parseJsonFromText :: "engine \<Rightarrow> jsval \<Rightarrow> js_error + jsval" where
  "parseJsonFromText E text =
     (case text of
        VStr s \<Rightarrow>
          if s = [] then Inl (Error ''Empty AI response'')
          else (case fenced_match s of
                  Some g \<Rightarrow> if g \<noteq> [] then JSON_parse_or_throw E g else parse_unfenced E s
                | None \<Rightarrow> parse_unfenced E s)
      | _ \<Rightarrow> Inl (Error ''Empty AI response''))"

subsection \<open>The extraction chain as the specification words it\<close>

text \<open>
  Three strategies, each of which yields a value or fails; the chain stops at the first
  that yields one, and fails with the no-structured-output error when none does.
\<close>

definition NoStructuredOutputError :: js_error where
  "NoStructuredOutputError = Error ''No JSON found in AI response''"

definition strategy_fence :: "engine \<Rightarrow> string \<Rightarrow> jsval option" where
  "strategy_fence E s = (case fenced_match s of Some g \<Rightarrow> JSON_parse E g | None \<Rightarrow> None)"

definition strategy_whole :: "engine \<Rightarrow> string \<Rightarrow> jsval option" where
  "strategy_whole E s = JSON_parse E s"

definition strategy_braces :: "engine \<Rightarrow> string \<Rightarrow> jsval option" where
  "strategy_braces E s = (case brace_slice s of Some b \<Rightarrow> JSON_parse E b | None \<Rightarrow> None)"

definition extraction_chain :: "engine \<Rightarrow> string \<Rightarrow> js_error + jsval" where
  "extraction_chain E s =
     (case strategy_fence E s of
        Some v \<Rightarrow> Inr v
      | None \<Rightarrow>
          (case strategy_whole E s of
             Some v \<Rightarrow> Inr v
           | None \<Rightarrow>
               (case strategy_braces E s of
                  Some v \<Rightarrow> Inr v
                | None \<Rightarrow> Inl NoStructuredOutputError)))"

section \<open>A JSON parser and the engine of the examples\<close>

text \<open>
  The examples need \<open>JSON.parse\<close> on concrete texts. This is the JSON grammar: white
  space, objects, arrays, strings with their escapes, numbers, \<open>true\<close>, \<open>false\<close> and
  \<open>null\<close>. A repeated member keeps its first place and its last value. The recursion
  runs on a counter that starts above the length of the text, and every call consumes
  input. A number is read as the exact value of its decimal literal; an escape above
  code unit 255 is outside the strings of the model.
\<close>

definition json_ws :: "char \<Rightarrow> bool" where
  "json_ws c = ((of_char c :: nat) \<in> {32, 9, 10, 13})"

definition skip_ws :: "string \<Rightarrow> string" where
  "skip_ws s = dropWhile json_ws s"

definition hex_val :: "char \<Rightarrow> nat option" where
  "hex_val c =
     (let n = (of_char c :: nat) in
      if 48 \<le> n \<and> n \<le> 57 then Some (n - 48)
      else if 65 \<le> n \<and> n \<le> 70 then Some (n - 55)
      else if 97 \<le> n \<and> n \<le> 102 then Some (n - 87)
      else None)"

definition hex4 :: "char \<Rightarrow> char \<Rightarrow> char \<Rightarrow> char \<Rightarrow> nat option" where
  "hex4 a b c d =
     (case (hex_val a, hex_val b, hex_val c, hex_val d) of
        (Some w, Some x, Some y, Some z) \<Rightarrow> Some (((w * 16 + x) * 16 + y) * 16 + z)
      | _ \<Rightarrow> None)"

definition escape_char :: "char \<Rightarrow> char option" where
  "escape_char e =
     (if e = CHR 0x22 then Some (CHR 0x22)
      else if e = CHR 0x5C then Some (CHR 0x5C)
      else if e = CHR ''/'' then Some (CHR ''/'')
      else if e = CHR ''b'' then Some (CHR 0x08)
      else if e = CHR ''f'' then Some (CHR 0x0C)
      else if e = CHR ''n'' then Some (CHR 0x0A)
      else if e = CHR ''r'' then Some (CHR 0x0D)
      else if e = CHR ''t'' then Some (CHR 0x09)
      else None)"

definition cons_to :: "'a \<Rightarrow> ('a list \<times> 'b) option \<Rightarrow> ('a list \<times> 'b) option" where
  "cons_to x r = map_option (\<lambda>(xs, rest). (x # xs, rest)) r"

fun parse_chars :: "string \<Rightarrow> (string \<times> string) option" where
  "parse_chars [] = None"
| "parse_chars (c # cs) =
     (if c = CHR 0x22 then Some ([], cs)
      else if c = CHR 0x5C then
        (case cs of
           [] \<Rightarrow> None
         | e # es \<Rightarrow>
             if e = CHR ''u'' then
               (case es of
                  h1 # h2 # h3 # h4 # rest \<Rightarrow>
                    (case hex4 h1 h2 h3 h4 of
                       Some n \<Rightarrow> if n < 256 then cons_to (char_of n) (parse_chars rest) else None
                     | None \<Rightarrow> None)
                | _ \<Rightarrow> None)
             else (case escape_char e of
                     Some x \<Rightarrow> cons_to x (parse_chars es)
                   | None \<Rightarrow> None))
      else if (of_char c :: nat) < 32 then None
      else cons_to c (parse_chars cs))"

definition parse_fraction :: "string \<Rightarrow> (string \<times> string) option" where
  "parse_fraction cs =
     (case cs of
        c # r \<Rightarrow>
          if c = CHR ''.'' then
            (if takeWhile is_digit r = [] then None
             else Some (takeWhile is_digit r, dropWhile is_digit r))
          else Some ([], cs)
      | [] \<Rightarrow> Some ([], cs))"

definition parse_exponent :: "string \<Rightarrow> (int \<times> string) option" where
  "parse_exponent cs =
     (case cs of
        c # r \<Rightarrow>
          if c = CHR ''e'' \<or> c = CHR ''E'' then
            (let (neg, r1) = (case r of
                                s # r' \<Rightarrow> if s = CHR ''-'' then (True, r')
                                           else if s = CHR ''+'' then (False, r') else (False, r)
                              | [] \<Rightarrow> (False, r))
             in if takeWhile is_digit r1 = [] then None
                else Some ((if neg then - 1 else 1) * int (digits_val (takeWhile is_digit r1)),
                           dropWhile is_digit r1))
          else Some (0, cs)
      | [] \<Rightarrow> Some (0, cs))"

definition scale10 :: "real \<Rightarrow> int \<Rightarrow> real" where
  "scale10 x e = (if 0 \<le> e then x * 10 ^ nat e else x / 10 ^ nat (- e))"

definition parse_number :: "string \<Rightarrow> (jsnum \<times> string) option" where
  "parse_number cs =
     (let (neg, cs1) = (case cs of
                          c # r \<Rightarrow> if c = CHR ''-'' then (True, r) else (False, cs)
                        | [] \<Rightarrow> (False, cs));
          ip = takeWhile is_digit cs1
      in if ip = [] \<or> (hd ip = CHR ''0'' \<and> length ip > 1) then None
         else (case parse_fraction (dropWhile is_digit cs1) of
                 None \<Rightarrow> None
               | Some (fp, cs2) \<Rightarrow>
                   (case parse_exponent cs2 of
                      None \<Rightarrow> None
                    | Some (ex, cs3) \<Rightarrow>
                        Some (Finite ((if neg then - 1 else 1) *
                                scale10 (real (digits_val ip) + real (digits_val fp) / 10 ^ length fp) ex),
                              cs3))))"

definition object_of :: "(string \<times> jsval) list \<Rightarrow> jsval" where
  "object_of members = VObj (foldl (\<lambda>acc (k, v). AList.update k v acc) [] members)"

fun parse_value :: "nat \<Rightarrow> string \<Rightarrow> (jsval \<times> string) option"
  and parse_elements :: "nat \<Rightarrow> string \<Rightarrow> (jsval list \<times> string) option"
  and parse_members :: "nat \<Rightarrow> string \<Rightarrow> ((string \<times> jsval) list \<times> string) option"
where
  "parse_value 0 cs = None"
| "parse_value (Suc n) cs =
     (case cs of
        [] \<Rightarrow> None
      | c # r \<Rightarrow>
          if c = CHR ''{'' then
            (case skip_ws r of
               [] \<Rightarrow> None
             | d # r' \<Rightarrow>
                 if d = CHR ''}'' then Some (VObj [], r')
                 else map_option (\<lambda>(ms, rest). (object_of ms, rest)) (parse_members n (d # r')))
          else if c = CHR ''['' then
            (case skip_ws r of
               [] \<Rightarrow> None
             | d # r' \<Rightarrow>
                 if d = CHR '']'' then Some (VArr [], r')
                 else map_option (\<lambda>(vs, rest). (VArr vs, rest)) (parse_elements n (d # r')))
          else if c = CHR 0x22 then map_option (\<lambda>(s, rest). (VStr s, rest)) (parse_chars r)
          else if starts_with ''true'' cs then Some (VBool True, drop 4 cs)
          else if starts_with ''false'' cs then Some (VBool False, drop 5 cs)
          else if starts_with ''null'' cs then Some (VNull, drop 4 cs)
          else map_option (\<lambda>(x, rest). (VNum x, rest)) (parse_number cs))"
| "parse_elements 0 cs = None"
| "parse_elements (Suc n) cs =
     (case parse_value n cs of
        None \<Rightarrow> None
      | Some (v, r) \<Rightarrow>
          (case skip_ws r of
             [] \<Rightarrow> None
           | c # r' \<Rightarrow>
               if c = CHR '','' then cons_to v (parse_elements n (skip_ws r'))
               else if c = CHR '']'' then Some ([v], r')
               else None))"
| "parse_members 0 cs = None"
| "parse_members (Suc n) cs =
     (case cs of
        [] \<Rightarrow> None
      | q # r \<Rightarrow>
          if q \<noteq> CHR 0x22 then None
          else (case parse_chars r of
                  None \<Rightarrow> None
                | Some (k, r1) \<Rightarrow>
                    (case skip_ws r1 of
                       [] \<Rightarrow> None
                     | c # r2 \<Rightarrow>
                         if c \<noteq> CHR '':'' then None
                         else (case parse_value n (skip_ws r2) of
                                 None \<Rightarrow> None
                               | Some (v, r3) \<Rightarrow>
                                   (case skip_ws r3 of
                                      [] \<Rightarrow> None
                                    | d # r4 \<Rightarrow>
                                        if d = CHR '','' then cons_to (k, v) (parse_members n (skip_ws r4))
                                        else if d = CHR ''}'' then Some ([(k, v)], r4)
                                        else None)))))"

definition json_parse :: "string \<Rightarrow> jsval option" where
  "json_parse s =
     (case parse_value (Suc (length s)) (skip_ws s) of
        None \<Rightarrow> None
      | Some (v, rest) \<Rightarrow> if skip_ws rest = [] then Some v else None)"

text \<open>
  The examples run on this parser. They never serialise a value, print a number or read
  a number from a string, so those three built-ins are left unspecified.
\<close>

definition example_engine :: engine where
  "example_engine =
     \<lparr>JSON_parse = json_parse, JSON_stringify = undefined,
      Number_toString = undefined, StringToNumber = undefined\<rparr>"

section \<open>generateBullPeakSummary and formatSeriesForPrompt\<close>

text \<open>
  \<^verbatim>\<open>
  generateBullPeakSummary(latestBullPeakDoc) {
    try {
      if (!latestBullPeakDoc || !Array.isArray(latestBullPeakDoc.indicators)) {
        return "No Bull Market Peak Indicators available";
      }
      const lines = latestBullPeakDoc.indicators.map((ind) => {
        const name = ind?.indicator_name || "Unknown Indicator";
        const hit = !!ind?.hit_status;
        const value = ind?.current_value || ind?.value || "N/A";
        const threshold = ind?.threshold || "N/A";
        return `${name}: ${hit} (Value: ${value}, Threshold: ${threshold})`;
      });
      return lines.join("\n");
    } catch (e) {
      return "No Bull Market Peak Indicators available";
    }
  }
  \<close>
  Nothing in the \<open>try\<close> block throws on a value of the model, so the \<open>catch\<close> branch has
  no counterpart.
\<close>

definition indicator_line :: "engine \<Rightarrow> jsval \<Rightarrow> string" where
  "indicator_line E ind =
     (let name = js_or (get_own ind ''indicator_name'') (VStr ''Unknown Indicator'');
          hit = VBool (truthy (get_own ind ''hit_status''));
          val = js_or (js_or (get_own ind ''current_value'') (get_own ind ''value'')) (VStr ''N/A'');
          threshold = js_or (get_own ind ''threshold'') (VStr ''N/A'')
      in ToString E name @ '': '' @ ToString E hit @ '' (Value: '' @ ToString E val
           @ '', Threshold: '' @ ToString E threshold @ '')'')"

fun elements :: "jsval \<Rightarrow> jsval list" where
  "elements (VArr xs) = xs"
| "elements v = []"

definition generateBullPeakSummary :: "engine \<Rightarrow> jsval \<Rightarrow> string" where
  "generateBullPeakSummary E latestBullPeakDoc =
     (if \<not> truthy latestBullPeakDoc \<or> \<not> Array_isArray (get_own latestBullPeakDoc ''indicators'')
      then ''No Bull Market Peak Indicators available''
      else (let lines = map (indicator_line E) (elements (get_own latestBullPeakDoc ''indicators''))
            in join [CHR 0x0A] lines))"

text \<open>
  \<^verbatim>\<open>
  formatSeriesForPrompt(arr, label) {
    if (!arr || !Array.isArray(arr) || arr.length === 0) {
      return `insufficient_${label}_data`;
    }
    const sampled = arr.filter((_, i) => i % 5 === 0);
    return JSON.stringify(sampled.slice(-288));
  }
  \<close>
\<close>

definition filter_indexed :: "('a \<Rightarrow> nat \<Rightarrow> bool) \<Rightarrow> 'a list \<Rightarrow> 'a list" where
  "filter_indexed P xs = map fst (filter (\<lambda>(x, i). P x i) (zip xs [0..<length xs]))"

definition formatSeriesForPrompt :: "engine \<Rightarrow> jsval \<Rightarrow> string \<Rightarrow> string" where
  "formatSeriesForPrompt E arr label =
     (if \<not> truthy arr \<or> \<not> Array_isArray arr \<or> length (elements arr) = 0
      then ''insufficient_'' @ label @ ''_data''
      else (let sampled = filter_indexed (\<lambda>_ i. i mod 5 = 0) (elements arr)
            in JSON_stringify E (VArr (slice_last 288 sampled))))"

section \<open>The cache of daily closes\<close>

text \<open>
  \<^verbatim>\<open>
  const dailyClosesCache = { bitcoin: [], ethereum: [], solana: [], lastFetchedAt: 0 };
  \<close>
\<close>

record cache =
  bitcoin :: "jsval list"
  ethereum :: "jsval list"
  solana :: "jsval list"
  lastFetchedAt :: int

definition dailyClosesCache0 :: cache where
  "dailyClosesCache0 = \<lparr>bitcoin = [], ethereum = [], solana = [], lastFetchedAt = 0\<rparr>"

text \<open>
  \<^verbatim>\<open>
  const mapDailyClose = (arr) =>
    (arr || [])
      .map((d) => ({
        timestamp: d.timestamp,
        close: d.close ?? d.price ?? d.c ?? null,
      }))
      .filter((d) => Number.isFinite(d.close))
      .sort((a, b) => a.timestamp - b.timestamp)
      .slice(-900);
  \<close>
  \<open>d.timestamp\<close> throws on an element that is \<open>null\<close>, and \<open>.map\<close> is not a function
  on a value that is truthy and not an array.
\<close>

definition daily_point :: "jsval \<Rightarrow> js_error + jsval" where
  "daily_point d =
     (case get_prop d ''timestamp'' of
        Inl e \<Rightarrow> Inl e
      | Inr ts \<Rightarrow>
          Inr (VObj [(''timestamp'', ts),
                     (''close'', js_nullish (js_nullish (js_nullish (get_own d ''close'')
                        (get_own d ''price'')) (get_own d ''c'')) VNull)]))"

fun map_throwing :: "('a \<Rightarrow> js_error + 'b) \<Rightarrow> 'a list \<Rightarrow> js_error + 'b list" where
  "map_throwing f [] = Inr []"
| "map_throwing f (x # xs) =
     (case f x of
        Inl e \<Rightarrow> Inl e
      | Inr y \<Rightarrow> (case map_throwing f xs of Inl e \<Rightarrow> Inl e | Inr ys \<Rightarrow> Inr (y # ys)))"

definition compare_timestamp :: "engine \<Rightarrow> jsval \<Rightarrow> jsval \<Rightarrow> jsnum" where
  "compare_timestamp E a b =
     jsnum_sub (ToNumber E (get_own a ''timestamp'')) (ToNumber E (get_own b ''timestamp''))"

definition mapDailyClose :: "engine \<Rightarrow> jsval \<Rightarrow> js_error + jsval list" where
  "mapDailyClose E arr =
     (case js_or arr (VArr []) of
        VArr ds \<Rightarrow>
          (case map_throwing daily_point ds of
             Inl e \<Rightarrow> Inl e
           | Inr ps \<Rightarrow>
               Inr (slice_last 900
                      (Array_sort (compare_timestamp E)
                         (filter (\<lambda>p. Number_isFinite (get_own p ''close'')) ps))))
      | _ \<Rightarrow> Inl TypeError)"

text \<open>
  \<^verbatim>\<open>
  async function refreshDailyClosesCache() {
    try {
      const [btcDailyResp, ethDailyResp, solDailyResp] = await Promise.all([
        axios.get(`${CONFIG.DATA_SERVICE_URL}/bitcoin/daily?days=900`, { timeout: 30000 }),
        axios.get(`${CONFIG.DATA_SERVICE_URL}/ethereum/daily?days=900`, { timeout: 30000 }),
        axios.get(`${CONFIG.DATA_SERVICE_URL}/solana/daily?days=900`, { timeout: 30000 }),
      ]);
      const mapDailyClose = ...;
      dailyClosesCache.bitcoin = mapDailyClose(btcDailyResp.data?.data);
      dailyClosesCache.ethereum = mapDailyClose(ethDailyResp.data?.data);
      dailyClosesCache.solana = mapDailyClose(solDailyResp.data?.data);
      dailyClosesCache.lastFetchedAt = Date.now();
      console.log(`[CACHE] Daily closes ready - ...`);
    } catch (error) {
      console.error("[CACHE] Failed to refresh daily closes:", error.message);
    }
  }
  \<close>
  A request to the data service is rejected (\<open>Inl\<close>) or answers a body (\<open>Inr\<close>, the
  \<open>data\<close> of the response). \<open>Promise.all\<close> is rejected as soon as one request is. The
  three assignments run in order, so an exception in the second leaves the first done.
\<close>

type_synonym response = "js_error + jsval"

datatype refresh_log = Daily_closes_ready | Failed_to_refresh js_error

definition refresh_body :: "engine \<Rightarrow> int \<Rightarrow> jsval \<Rightarrow> jsval \<Rightarrow> jsval \<Rightarrow> cache \<Rightarrow> refresh_log \<times> cache" where
  "refresh_body E now btcBody ethBody solBody c =
     (case mapDailyClose E (get_own btcBody ''data'') of
        Inl e \<Rightarrow> (Failed_to_refresh e, c)
      | Inr b \<Rightarrow>
          (case mapDailyClose E (get_own ethBody ''data'') of
             Inl e \<Rightarrow> (Failed_to_refresh e, c\<lparr>bitcoin := b\<rparr>)
           | Inr e \<Rightarrow>
               (case mapDailyClose E (get_own solBody ''data'') of
                  Inl x \<Rightarrow> (Failed_to_refresh x, c\<lparr>bitcoin := b, ethereum := e\<rparr>)
                | Inr s \<Rightarrow>
                    (Daily_closes_ready,
                     c\<lparr>bitcoin := b, ethereum := e, solana := s, lastFetchedAt := now\<rparr>))))"

text \<open>
  When several requests are rejected, \<open>Promise.all\<close> reports the one rejected first in
  time; the model logs the first in the order of the array.
\<close>

definition refreshDailyClosesCache ::
  "engine \<Rightarrow> int \<Rightarrow> response \<times> response \<times> response \<Rightarrow> cache \<Rightarrow> refresh_log \<times> cache" where
  "refreshDailyClosesCache E now resps c =
     (case resps of
        (Inl e, _, _) \<Rightarrow> (Failed_to_refresh e, c)
      | (Inr _, Inl e, _) \<Rightarrow> (Failed_to_refresh e, c)
      | (Inr _, Inr _, Inl e) \<Rightarrow> (Failed_to_refresh e, c)
      | (Inr btcBody, Inr ethBody, Inr solBody) \<Rightarrow> refresh_body E now btcBody ethBody solBody c)"

text \<open>
  \<^verbatim>\<open>
  async function getCachedDailyCloses(symbol) {
    const key = symbol === "ethereum" ? "ethereum" : symbol === "solana" ? "solana" : "bitcoin";
    const cached = dailyClosesCache[key];
    if (cached && cached.length > 0) return cached;
    await refreshDailyClosesCache();
    return dailyClosesCache[key] || [];
  }
  \<close>
  The result is the series returned and the cache as the call leaves it.
\<close>

definition cache_key :: "string \<Rightarrow> string" where
  "cache_key symbol =
     (if symbol = ''ethereum'' then ''ethereum''
      else if symbol = ''solana'' then ''solana'' else ''bitcoin'')"

definition cache_at :: "cache \<Rightarrow> string \<Rightarrow> jsval list" where
  "cache_at c key =
     (if key = ''ethereum'' then ethereum c
      else if key = ''solana'' then solana c else bitcoin c)"

definition getCachedDailyCloses ::
  "engine \<Rightarrow> int \<Rightarrow> response \<times> response \<times> response \<Rightarrow> cache \<Rightarrow> string \<Rightarrow> jsval list \<times> cache" where
  "getCachedDailyCloses E now resps c symbol =
     (let key = cache_key symbol; cached = cache_at c key
      in if length cached > 0 then (cached, c)
         else (let c' = snd (refreshDailyClosesCache E now resps c)
               in (cache_at c' key, c')))"

section \<open>The pipeline\<close>

text \<open>
  What one run of \<open>analyze\<close> meets outside the process: the snapshot the Firestore
  listener left in \<open>latestData.BULL_PEAK\<close>, the API key of the configuration, the answers
  of the data service, of the prompt manager and of the completion endpoint, the
  Firestore handle \<open>db\<close> (\<open>None\<close> when the initialisation failed, else what
  \<open>add(doc)\<close> does: rejected, or the identifier of the new document), and the readings of
  the clock. \<open>daily_closes w n\<close> are the answers to the refresh that the \<open>n\<close>-th call of
  \<open>getCachedDailyCloses\<close> in \<open>buildPromptData\<close> starts when it misses.
\<close>

record world =
  BULL_PEAK :: jsval
  OPENROUTER_API_KEY :: jsval
  minute_series :: "string \<Rightarrow> response"
  daily_closes :: "nat \<Rightarrow> response \<times> response \<times> response"
  getFilledPrompt :: "jsval \<Rightarrow> js_error + string"
  post_completion :: "string \<Rightarrow> response"
  db :: "(jsval \<Rightarrow> js_error + string) option"
  t0 :: int
  t_enriched :: int
  t_refresh :: "nat \<Rightarrow> int"
  iso_build :: string
  iso_store :: string
  created_at :: jsval

text \<open>
  \<^verbatim>\<open>
  async fetchCryptoMinuteSeries() {
    const requests = [
      this.fetchDataServiceJson("/bitcoin?hours=24").catch(() => null),
      this.fetchDataServiceJson("/ethereum?hours=24").catch(() => null),
      this.fetchDataServiceJson("/solana?hours=24").catch(() => null),
    ];
    const [btc24, eth24, sol24] = await Promise.all(requests);
    return { btc24, eth24, sol24 };
  }
  \<close>
\<close>

definition catch_null :: "response \<Rightarrow> jsval" where
  "catch_null r = (case r of Inl e \<Rightarrow> VNull | Inr v \<Rightarrow> v)"

definition fetchCryptoMinuteSeries :: "world \<Rightarrow> jsval \<times> jsval \<times> jsval" where
  "fetchCryptoMinuteSeries w =
     (catch_null (minute_series w ''/bitcoin?hours=24''),
      catch_null (minute_series w ''/ethereum?hours=24''),
      catch_null (minute_series w ''/solana?hours=24''))"

text \<open>
  \<open>buildPromptData\<close>: the minute series, the summary, then the three daily series in
  order, each of which may refresh the cache. \<open>series24 m\<close> is
  \<open>m?.prices || m?.data || m\<close>.
\<close>

definition series24 :: "jsval \<Rightarrow> jsval" where
  "series24 m = js_or (js_or (get_own m ''prices'') (get_own m ''data'')) m"

definition buildPromptData :: "engine \<Rightarrow> world \<Rightarrow> cache \<Rightarrow> jsval \<times> cache" where
  "buildPromptData E w c =
     (let (btc24, eth24, sol24) = fetchCryptoMinuteSeries w;
          bullSummary = generateBullPeakSummary E (BULL_PEAK w);
          (btcDaily, c1) = getCachedDailyCloses E (t_refresh w 0) (daily_closes w 0) c ''bitcoin'';
          (ethDaily, c2) = getCachedDailyCloses E (t_refresh w 1) (daily_closes w 1) c1 ''ethereum'';
          (solDaily, c3) = getCachedDailyCloses E (t_refresh w 2) (daily_closes w 2) c2 ''solana''
      in (VObj
            [(''timestamp'', VStr (iso_build w)),
             (''bull_market_peak_indicators'', VStr bullSummary),
             (''bull_market_peak_raw'',
                js_or (BULL_PEAK w) (VObj [(''note'', VStr ''no_bull_peak_data'')])),
             (''bitcoin_recent_minutes_24h'',
                VStr (formatSeriesForPrompt E (series24 btc24) ''btc24'')),
             (''bitcoin_daily_900d_close'',
                VStr (JSON_stringify E (VArr (slice_last 900 btcDaily)))),
             (''ethereum_recent_minutes_24h'',
                VStr (formatSeriesForPrompt E (series24 eth24) ''eth24'')),
             (''ethereum_daily_900d_close'',
                VStr (JSON_stringify E (VArr (slice_last 900 ethDaily)))),
             (''solana_recent_minutes_24h'',
                VStr (formatSeriesForPrompt E (series24 sol24) ''sol24'')),
             (''solana_daily_900d_close'',
                VStr (JSON_stringify E (VArr (slice_last 900 solDaily))))],
          c3))"

text \<open>
  \<^verbatim>\<open>
  async callLLM(templateData) {
    if (!CONFIG.OPENROUTER_API_KEY) {
      throw new Error("OpenRouter API key not configured");
    }
    const prompt = this.promptManager.getFilledPrompt(templateData);
    const response = await axios.post(CONFIG.OPENROUTER_URL, { ... }, { ... });
    const text = response.data?.choices?.[0]?.message?.content || "";
    return text;
  }
  \<close>
\<close>

fun first_element :: "jsval \<Rightarrow> jsval" where
  "first_element (VArr xs) = (case xs of [] \<Rightarrow> VUndefined | x # _ \<Rightarrow> x)"
| "first_element (VObj kvs) = get_own (VObj kvs) ''0''"
| "first_element (VStr s) = (case s of [] \<Rightarrow> VUndefined | c # _ \<Rightarrow> VStr [c])"
| "first_element v = VUndefined"

definition completion_text :: "jsval \<Rightarrow> jsval" where
  "completion_text body =
     js_or (get_own (get_own (first_element (get_own body ''choices'')) ''message'') ''content'')
           (VStr [])"

definition callLLM :: "world \<Rightarrow> jsval \<Rightarrow> js_error + jsval" where
  "callLLM w templateData =
     (if \<not> truthy (OPENROUTER_API_KEY w) then Inl (Error ''OpenRouter API key not configured'')
      else (case getFilledPrompt w templateData of
              Inl e \<Rightarrow> Inl e
            | Inr prompt \<Rightarrow>
                (case post_completion w prompt of
                   Inl e \<Rightarrow> Inl e
                 | Inr body \<Rightarrow> Inr (completion_text body))))"

text \<open>
  \<^verbatim>\<open>
  async storeResult(result) {
    if (!db) return { stored: false, reason: "firestore_not_available" };
    const doc = {
      ...result,
      timestamp: new Date().toISOString(),
      createdAt: admin.firestore.Timestamp.now(),
      service: "market-peak-analysis-service",
      serviceVersion: "1.0.0",
    };
    const ref = await db.collection(CONFIG.COLLECTIONS.STORAGE).add(doc);
    return { stored: true, id: ref.id };
  }
  \<close>
  \<open>{...o, k: v}\<close> keeps the properties of \<open>o\<close> in their order and sets \<open>k\<close>, in its
  place when \<open>o\<close> has it and at the end otherwise.
\<close>

fun own_properties :: "jsval \<Rightarrow> (string \<times> jsval) list" where
  "own_properties (VObj kvs) = kvs"
| "own_properties v = []"

definition store_doc :: "world \<Rightarrow> jsval \<Rightarrow> jsval" where
  "store_doc w result =
     VObj (AList.update ''serviceVersion'' (VStr ''1.0.0'')
          (AList.update ''service'' (VStr ''market-peak-analysis-service'')
          (AList.update ''createdAt'' (created_at w)
          (AList.update ''timestamp'' (VStr (iso_store w)) (own_properties result)))))"

definition storeResult :: "world \<Rightarrow> jsval \<Rightarrow> js_error + jsval" where
  "storeResult w result =
     (case db w of
        None \<Rightarrow> Inr (VObj [(''stored'', VBool False), (''reason'', VStr ''firestore_not_available'')])
      | Some add \<Rightarrow>
          (case add (store_doc w result) of
             Inl e \<Rightarrow> Inl e
           | Inr ref_id \<Rightarrow> Inr (VObj [(''stored'', VBool True), (''id'', VStr ref_id)])))"

text \<open>
  \<^verbatim>\<open>
  async analyze() {
    const t0 = Date.now();
    const templateData = await this.buildPromptData();
    const aiText = await this.callLLM(templateData);
    const parsed = this.parseJsonFromText(aiText);
    this.validateOutput(parsed);
    const enriched = {
      ...parsed,
      analysis_metadata: {
        model: CONFIG.MODEL,
        data_sources: ["BULL_PEAK", "BTC", "ETH", "SOL"],
        collection_duration_ms: Date.now() - t0,
      },
    };
    const storage = await this.storeResult(enriched);
    console.log(...);
    return { success: true, analysis: enriched, storage };
  }
  \<close>
  A run reports what \<open>analyze\<close> returned or threw, the arguments of the calls of
  \<open>storeResult\<close> it made, and the cache as it leaves it.
\<close>

record report =
  outcome :: "js_error + jsval"
  storeResult_calls :: "jsval list"
  cache_after :: cache

definition analysis_metadata :: "world \<Rightarrow> jsval" where
  "analysis_metadata w =
     VObj [(''model'', VStr ''openai/gpt-5-mini''),
           (''data_sources'', VArr [VStr ''BULL_PEAK'', VStr ''BTC'', VStr ''ETH'', VStr ''SOL'']),
           (''collection_duration_ms'', VNum (Finite (real_of_int (t_enriched w - t0 w))))]"

definition enrich :: "world \<Rightarrow> jsval \<Rightarrow> jsval" where
  "enrich w parsed =
     VObj (AList.update ''analysis_metadata'' (analysis_metadata w) (own_properties parsed))"

definition analyze :: "engine \<Rightarrow> world \<Rightarrow> cache \<Rightarrow> report" where
  "analyze E w c =
     (let (templateData, c') = buildPromptData E w c
      in case callLLM w templateData of
           Inl e \<Rightarrow> \<lparr>outcome = Inl e, storeResult_calls = [], cache_after = c'\<rparr>
         | Inr aiText \<Rightarrow>
             (case parseJsonFromText E aiText of
                Inl e \<Rightarrow> \<lparr>outcome = Inl e, storeResult_calls = [], cache_after = c'\<rparr>
              | Inr parsed \<Rightarrow>
                  (case validateOutput parsed of
                     Inl e \<Rightarrow> \<lparr>outcome = Inl e, storeResult_calls = [], cache_after = c'\<rparr>
                   | Inr _ \<Rightarrow>
                       (let enriched = enrich w parsed
                        in case storeResult w enriched of
                             Inl e \<Rightarrow>
                               \<lparr>outcome = Inl e, storeResult_calls = [enriched],
                                cache_after = c'\<rparr>
                           | Inr storage \<Rightarrow>
                               \<lparr>outcome = Inr (VObj [(''success'', VBool True),
                                                      (''analysis'', enriched),
                                                      (''storage'', storage)]),
                                storeResult_calls = [enriched], cache_after = c'\<rparr>))))"

section \<open>The caches a process can hold\<close>












text \<open>
  Bodies of the examples: a daily series of the given points, and a point with its
  timestamp and close.
\<close>

definition daily_body :: "jsval list \<Rightarrow> jsval" where
  "daily_body points = VObj [(''data'', VArr points)]"

definition point :: "real \<Rightarrow> real \<Rightarrow> jsval" where
  "point t x = VObj [(''timestamp'', VNum (Finite t)), (''close'', VNum (Finite x))]"

section \<open>The result as the data model words it\<close>

text \<open>
  The data model of the specification: a score that is an integer from 1 to 100, an
  analysis and a reasoning that are strings, and key factors that are a sequence of
  strings.
\<close>

definition is_integer :: "real \<Rightarrow> bool" where
  "is_integer r = (real_of_int \<lfloor>r\<rfloor> = r)"

definition is_AssessmentResult :: "jsval \<Rightarrow> bool" where
  "is_AssessmentResult r =
     ((case get_own r ''score'' of
         VNum (Finite x) \<Rightarrow> is_integer x \<and> 1 \<le> x \<and> x \<le> 100
       | _ \<Rightarrow> False)
      \<and> typeof (get_own r ''analysis'') = ''string''
      \<and> typeof (get_own r ''reasoning'') = ''string''
      \<and> (case get_own r ''key_factors'' of
            VArr xs \<Rightarrow> list_all (\<lambda>x. typeof x = ''string'') xs
          | _ \<Rightarrow> False))"

section \<open>The world of the examples\<close>

text \<open>
  A process with no snapshot and a data service that is down, whose completion endpoint
  answers the given text as the content of its first choice, over the given Firestore
  handle.
\<close>

definition completion_body :: "string \<Rightarrow> jsval" where
  "completion_body content =
     VObj [(''choices'', VArr [VObj [(''message'',
        VObj [(''role'', VStr ''assistant''), (''content'', VStr content)])]])]"

definition example_world :: "string \<Rightarrow> (jsval \<Rightarrow> js_error + string) option \<Rightarrow> world" where
  "example_world content handle =
     \<lparr>BULL_PEAK = VNull,
      OPENROUTER_API_KEY = VStr ''sk-or-example'',
      minute_series = (\<lambda>path. Inl (AxiosError ''connect ECONNREFUSED'')),
      daily_closes = (\<lambda>n. (Inl (AxiosError ''connect ECONNREFUSED''),
                            Inl (AxiosError ''connect ECONNREFUSED''),
                            Inl (AxiosError ''connect ECONNREFUSED''))),
      getFilledPrompt = (\<lambda>templateData. Inr ''prompt''),
      post_completion = (\<lambda>prompt. Inr (completion_body content)),
      db = handle,
      t0 = 1000,
      t_enriched = 4000,
      t_refresh = (\<lambda>n. 2000),
      iso_build = ''2025-01-01T00:00:01.000Z'',
      iso_store = ''2025-01-01T00:00:04.000Z'',
      created_at = VStr ''2025-01-01T00:00:04.000Z''\<rparr>"

text \<open>A Firestore handle whose \<open>add\<close> succeeds, and one whose \<open>add\<close> is rejected.\<close>

definition accepting_store :: "jsval \<Rightarrow> js_error + string" where
  "accepting_store doc = Inr ''Zk3PqW9''"

definition rejecting_store :: "jsval \<Rightarrow> js_error + string" where
  "rejecting_store doc = Inl (FirestoreError ''14 UNAVAILABLE'')"

section \<open>Validation of the parsed object\<close>

lemma check_required_obj:
  "check_required (VObj kvs) ks =
     (case List.find (\<lambda>k. map_of kvs k = None) ks of
        Some k \<Rightarrow> Inl (Error (''Missing: '' @ k))
      | None \<Rightarrow> Inr ())"
  by (induction ks) auto

lemma score_accept_iff:
  "(typeof v = ''number'' \<and> \<not> score_rejected v) \<longleftrightarrow>
   (\<exists>r. v = VNum (Finite r) \<and> 1 \<le> r \<and> r \<le> 100)"
proof (cases v)
  case (VNum n)
  then show ?thesis by (cases n) (auto simp: score_rejected_def is_finite_def)
qed (auto simp: score_rejected_def)

lemma isArray_iff: "Array_isArray v \<longleftrightarrow> (\<exists>xs. v = VArr xs)"
  by (cases v) auto

lemma validateOutput_missing:
  assumes "List.find (\<lambda>k. map_of kvs k = None) required = Some k"
  shows "validateOutput (VObj kvs) = Inl (Error (''Missing: '' @ k))"
  using assms by (simp add: validateOutput_def check_required_obj)

lemma validateOutput_present:
  assumes h: "\<forall>k \<in> set required. map_of kvs k \<noteq> None"
  shows "validateOutput (VObj kvs) =
          (if \<not> (\<exists>r. map_of kvs ''score'' = Some (VNum (Finite r)) \<and> 1 \<le> r \<and> r \<le> 100)
           then Inl (Error ''score must be 1..100 number'')
           else if \<not> (\<exists>xs. map_of kvs ''key_factors'' = Some (VArr xs))
           then Inl (Error ''key_factors must be array'')
           else Inr ())"
proof -
  have none: "List.find (\<lambda>k. map_of kvs k = None) required = None"
    using h by (simp add: find_None_iff)
  have sc: "(typeof (get_own (VObj kvs) ''score'') = ''number''
               \<and> \<not> score_rejected (get_own (VObj kvs) ''score''))
      \<longleftrightarrow> (\<exists>r. map_of kvs ''score'' = Some (VNum (Finite r)) \<and> 1 \<le> r \<and> r \<le> 100)"
    using h unfolding score_accept_iff by (auto simp: required_def)
  have kf: "Array_isArray (get_own (VObj kvs) ''key_factors'')
      \<longleftrightarrow> (\<exists>xs. map_of kvs ''key_factors'' = Some (VArr xs))"
    using h unfolding isArray_iff by (auto simp: required_def)
  have "validateOutput (VObj kvs) =
       (if \<not> (typeof (get_own (VObj kvs) ''score'') = ''number''
                \<and> \<not> score_rejected (get_own (VObj kvs) ''score''))
          then Inl (Error ''score must be 1..100 number'')
          else if \<not> Array_isArray (get_own (VObj kvs) ''key_factors'')
          then Inl (Error ''key_factors must be array'')
          else Inr ())"
    by (simp add: validateOutput_def check_required_obj none)
  then show ?thesis unfolding sc kf .
qed

lemma validateOutput_accepts_object:
  assumes "validateOutput v = Inr ()"
  shows "\<exists>kvs. v = VObj kvs"
proof (cases v)
  case (VArr xs)
  have "\<not> is_array_index ''score'' (length xs)"
    by (simp add: is_array_index_def is_digit_def)
  with VArr assms show ?thesis
    by (simp add: validateOutput_def required_def)
qed (use assms in \<open>auto simp: validateOutput_def required_def\<close>)



section \<open>Sampling of the recent window\<close>

lemma filter_multiples_upt:
  "filter (\<lambda>i. i mod 5 = 0) [0..<n] = map (\<lambda>k. 5 * k) [0..<(n + 4) div 5]"
proof (induction n)
  case 0
  then show ?case by simp
next
  case (Suc n)
  show ?case
  proof (cases "n mod 5 = 0")
    case True
    then have "(Suc n + 4) div 5 = Suc ((n + 4) div 5)" "5 * ((n + 4) div 5) = n"
      by presburger+
    with Suc True show ?thesis by simp
  next
    case False
    then have "(Suc n + 4) div 5 = (n + 4) div 5" by presburger
    with Suc False show ?thesis by simp
  qed
qed

lemma zip_upt_nth: "zip xs [0..<length xs] = map (\<lambda>i. (xs ! i, i)) [0..<length xs]"
  by (rule nth_equalityI) auto

lemma filter_indexed_nth:
  "filter_indexed (\<lambda>_ i. P i) xs = map (\<lambda>i. xs ! i) (filter P [0..<length xs])"
  unfolding filter_indexed_def zip_upt_nth
  by (simp add: filter_map comp_def)

lemma every_fifth:
  "filter_indexed (\<lambda>_ i. i mod 5 = 0) xs = map (\<lambda>k. xs ! (5 * k)) [0..<(length xs + 4) div 5]"
  by (simp add: filter_indexed_nth filter_multiples_upt comp_def)

lemma slice_last_rev: "slice_last n xs = rev (take n (rev xs))"
  by (simp add: slice_last_def take_rev)

text \<open>
  C8. \<open>formatSeriesForPrompt\<close> on a non-empty array serialises the last 288 of the
  elements at the positions 0, 5, 10, ... of the array, and that list is never empty;
  on any other value (absent, \<open>null\<close>, an empty array, not an array) it returns the
  marker \<open>insufficient_<label>_data\<close>.
\<close>

theorem formatSeriesForPrompt_contract:
  "(xs \<noteq> [] \<longrightarrow>
      formatSeriesForPrompt E (VArr xs) label =
        JSON_stringify E
          (VArr (rev (take 288 (rev (map (\<lambda>k. xs ! (5 * k)) [0..<(length xs + 4) div 5])))))
      \<and> rev (take 288 (rev (map (\<lambda>k. xs ! (5 * k)) [0..<(length xs + 4) div 5]))) \<noteq> [])
   \<and> ((\<forall>ys. arr = VArr ys \<longrightarrow> ys = []) \<longrightarrow>
        formatSeriesForPrompt E arr label = ''insufficient_'' @ label @ ''_data'')"
proof (intro conjI impI)
  assume ne: "xs \<noteq> []"
  then show "formatSeriesForPrompt E (VArr xs) label =
        JSON_stringify E
          (VArr (rev (take 288 (rev (map (\<lambda>k. xs ! (5 * k)) [0..<(length xs + 4) div 5])))))"
    by (simp add: formatSeriesForPrompt_def every_fifth slice_last_rev)
  from ne have "0 < (length xs + 4) div 5" by (cases xs) auto
  then show "rev (take 288 (rev (map (\<lambda>k. xs ! (5 * k)) [0..<(length xs + 4) div 5]))) \<noteq> []"
    by simp
next
  assume "\<forall>ys. arr = VArr ys \<longrightarrow> ys = []"
  then show "formatSeriesForPrompt E arr label = ''insufficient_'' @ label @ ''_data''"
    by (cases arr) (auto simp: formatSeriesForPrompt_def)
qed

theorem formatSeriesForPrompt_contract_witness:
  "formatSeriesForPrompt example_engine
      (VArr (map (\<lambda>i. VNum (Finite (real i))) [0..<12])) ''btc24'' =
     JSON_stringify example_engine (VArr [VNum (Finite 0), VNum (Finite 5), VNum (Finite 10)])
   \<and> formatSeriesForPrompt example_engine (VArr []) ''btc24'' = ''insufficient_btc24_data''
   \<and> formatSeriesForPrompt example_engine VUndefined ''btc24'' = ''insufficient_btc24_data''"
proof -
  let ?xs = "map (\<lambda>i. VNum (Finite (real i))) [0..<12]"
  let ?E = example_engine
  have ne: "?xs \<noteq> []" by (simp add: upt_conv_Cons)
  have a: "formatSeriesForPrompt ?E (VArr ?xs) ''btc24'' =
        JSON_stringify ?E
          (VArr (rev (take 288 (rev (map (\<lambda>k. ?xs ! (5 * k)) [0..<(length ?xs + 4) div 5])))))"
    using formatSeriesForPrompt_contract [of ?xs ?E "''btc24''" VNull] ne by blast
  have b: "formatSeriesForPrompt ?E (VArr []) ''btc24'' = ''insufficient_btc24_data''"
    using formatSeriesForPrompt_contract [of "[VNull]" ?E "''btc24''" "VArr []"] by simp
  have c: "formatSeriesForPrompt ?E VUndefined ''btc24'' = ''insufficient_btc24_data''"
    using formatSeriesForPrompt_contract [of "[VNull]" ?E "''btc24''" "VUndefined"] by simp
  have d: "rev (take 288 (rev (map (\<lambda>k. ?xs ! (5 * k)) [0..<(length ?xs + 4) div 5])))
      = [VNum (Finite 0), VNum (Finite 5), VNum (Finite 10)]"
    by (simp add: upt_conv_Cons)
  show ?thesis
    using a b c unfolding d by simp
qed

section \<open>Extraction of the JSON object from the completion text\<close>

text \<open>The backtracking matcher finds the closed form.\<close>

lemma first_success_append:
  "first_success f (xs @ ys) =
     (case first_success f xs of Some y \<Rightarrow> Some y | None \<Rightarrow> first_success f ys)"
  by (induction xs) (auto split: option.splits)

lemma first_success_map:
  "first_success f (map h xs) = first_success (f \<circ> h) xs"
  by (induction xs) (auto split: option.splits)

lemma starts_with_fence_not_space:
  "starts_with fence (c # cs) \<Longrightarrow> \<not> js_space c"
  by (auto simp: fence_def js_space_def)

lemma starts_with_fence_Nil: "\<not> starts_with fence []"
  by (simp add: fence_def)

lemma fence_json_not_Nil: "fence_json \<noteq> []"
  by (simp add: fence_json_def)

lemma fence_not_Nil: "fence \<noteq> []"
  by (simp add: fence_def)

lemma closing_fence_eq:
  "closing_fence g r2 = (if starts_with fence (dropWhile js_space r2) then Some g else None)"
proof (induction r2)
  case Nil
  then show ?case by (simp add: closing_fence_def)
next
  case (Cons c cs)
  show ?case
  proof (cases "js_space c")
    case True
    then have "\<not> starts_with fence (c # cs)" using starts_with_fence_not_space by blast
    with True Cons show ?thesis
      by (simp add: closing_fence_def first_success_append)
  next
    case False
    then show ?thesis by (simp add: closing_fence_def)
  qed
qed

lemma first_success_cons_group:
  "first_success (\<lambda>(g, r2). closing_fence (c # g) r2) xs
     = map_option ((#) c) (first_success (\<lambda>(g, r2). closing_fence g r2) xs)"
  by (induction xs) (auto simp: closing_fence_eq split: option.splits if_splits)

lemma group_and_fence_Cons:
  "group_and_fence (c # cs) =
      (if starts_with fence (dropWhile js_space (c # cs)) then Some []
       else map_option ((#) c) (group_and_fence cs))"
proof -
  have comp: "(\<lambda>(g, r2). closing_fence g r2) \<circ> (\<lambda>(g, rest). (c # g, rest))
      = (\<lambda>(g, r2). closing_fence (c # g) r2)"
    by (rule ext) auto
  have tl: "first_success (\<lambda>(g, r2). closing_fence g r2)
        (map (\<lambda>(g, rest). (c # g, rest)) (lazy_any cs))
      = map_option ((#) c) (first_success (\<lambda>(g, r2). closing_fence g r2) (lazy_any cs))"
    unfolding first_success_map comp first_success_cons_group ..
  show ?thesis
    unfolding group_and_fence_def lazy_any.simps first_success.simps prod.case tl
    by (simp add: closing_fence_eq)
qed

lemma before_first_split:
  "before_first p cs = Some w \<Longrightarrow> \<exists>rest. cs = w @ rest \<and> starts_with p rest"
proof (induction cs arbitrary: w)
  case Nil
  then show ?case by (auto split: if_splits)
next
  case (Cons c cs)
  show ?case
  proof (cases "starts_with p (c # cs)")
    case True
    with Cons.prems show ?thesis by auto
  next
    case False
    with Cons.prems obtain w' where w': "before_first p cs = Some w'" "w = c # w'" by auto
    from Cons.IH [OF w'(1)] w'(2) show ?thesis by auto
  qed
qed

lemma before_first_space_prefix:
  assumes "list_all js_space w"
  shows "before_first fence (w @ r) = map_option ((@) w) (before_first fence r)"
  using assms
proof (induction w)
  case Nil
  then show ?case by (simp add: option.map_ident)
next
  case (Cons c w)
  then have "\<not> starts_with fence (c # w @ r)"
    using starts_with_fence_not_space [of c "w @ r"] by auto
  with Cons show ?case by (simp add: option.map_comp comp_def)
qed

lemma before_first_dropWhile:
  "before_first fence s =
     map_option ((@) (takeWhile js_space s)) (before_first fence (dropWhile js_space s))"
proof -
  have "list_all js_space (takeWhile js_space s)"
    by (simp add: list_all_iff) (meson set_takeWhileD)
  from before_first_space_prefix [OF this, of "dropWhile js_space s"] show ?thesis by simp
qed

lemma strip_end_all_space: "list_all js_space w \<Longrightarrow> strip_end w = []"
  by (simp add: strip_end_def list_all_iff)

lemma strip_end_Cons:
  assumes "\<exists>x \<in> set w. \<not> js_space x"
  shows "strip_end (c # w) = c # strip_end w"
proof -
  from assms have "\<exists>x \<in> set (rev w). \<not> js_space x" by simp
  then have "dropWhile js_space (rev w @ [c]) = dropWhile js_space (rev w) @ [c]"
    by (metis dropWhile_append1)
  then show ?thesis by (simp add: strip_end_def)
qed

lemma strip_end_Cons_nonspace:
  assumes "\<not> js_space c"
  shows "strip_end (c # w) = c # strip_end w"
proof (cases "\<exists>x \<in> set w. \<not> js_space x")
  case True
  then show ?thesis by (rule strip_end_Cons)
next
  case False
  then have e: "dropWhile js_space (rev w) = []" by simp
  have "dropWhile js_space (rev w @ [c]) = dropWhile js_space [c]"
    by (rule dropWhile_append2) (use False in auto)
  with e assms show ?thesis by (simp add: strip_end_def)
qed

lemma group_and_fence_eq:
  "group_and_fence r1 = map_option strip_end (before_first fence r1)"
proof (induction r1)
  case Nil
  then show ?case
    by (simp add: group_and_fence_def closing_fence_eq starts_with_fence_Nil fence_not_Nil)
next
  case (Cons c cs)
  note unfold = group_and_fence_Cons [of c cs]
  show ?case
  proof (cases "starts_with fence (dropWhile js_space (c # cs))")
    case True
    then have "before_first fence (dropWhile js_space (c # cs)) = Some []"
      by (cases "dropWhile js_space (c # cs)") (auto simp: starts_with_fence_Nil fence_not_Nil)
    then have "before_first fence (c # cs) = Some (takeWhile js_space (c # cs))"
      using before_first_dropWhile [of "c # cs"] by simp
    moreover have "strip_end (takeWhile js_space (c # cs)) = []"
      by (rule strip_end_all_space) (simp add: list_all_iff, meson set_takeWhileD)
    ultimately show ?thesis using True unfold by simp
  next
    case False
    show ?thesis
    proof (cases "js_space c")
      case sp: True
      then have ns: "\<not> starts_with fence (c # cs)"
        using starts_with_fence_not_space by blast
      have "strip_end (c # w) = c # strip_end w" if w: "before_first fence cs = Some w" for w
      proof (rule strip_end_Cons, rule ccontr)
        assume "\<not> (\<exists>x \<in> set w. \<not> js_space x)"
        then have all: "\<forall>x \<in> set w. js_space x" by simp
        from before_first_split [OF w] obtain rest where
          r: "cs = w @ rest" "starts_with fence rest" by blast
        from r(2) obtain d ds where rest: "rest = d # ds" "\<not> js_space d"
          using starts_with_fence_not_space starts_with_fence_Nil by (cases rest) auto
        have "dropWhile js_space (w @ rest) = dropWhile js_space rest"
          by (rule dropWhile_append2) (use all in auto)
        with rest have "dropWhile js_space cs = rest" unfolding r(1) by simp
        with r(2) sp False show False by simp
      qed
      then have "map_option strip_end (map_option ((#) c) (before_first fence cs))
          = map_option ((#) c) (map_option strip_end (before_first fence cs))"
        by (cases "before_first fence cs") auto
      with False ns Cons.IH unfold show ?thesis by simp
    next
      case nsp: False
      then have "dropWhile js_space (c # cs) = c # cs" by simp
      with False have ns: "\<not> starts_with fence (c # cs)" by simp
      have "map_option strip_end (map_option ((#) c) (before_first fence cs))
          = map_option ((#) c) (map_option strip_end (before_first fence cs))"
        using strip_end_Cons_nonspace [OF nsp]
        by (cases "before_first fence cs") auto
      with False ns Cons.IH unfold show ?thesis by simp
    qed
  qed
qed

lemma greedy_group_eq:
  "first_success group_and_fence (greedy_space r) = group_and_fence (dropWhile js_space r)"
proof (induction r)
  case Nil
  then show ?case by (simp split: option.splits)
next
  case (Cons c cs)
  show ?case
  proof (cases "js_space c")
    case True
    have "group_and_fence (c # cs) = None" if "group_and_fence (dropWhile js_space cs) = None"
    proof -
      from that have "before_first fence (dropWhile js_space cs) = None"
        by (simp add: group_and_fence_eq)
      then have "before_first fence (dropWhile js_space (c # cs)) = None" using True by simp
      then have "before_first fence (c # cs) = None"
        using before_first_dropWhile [of "c # cs"] by simp
      then show ?thesis by (simp add: group_and_fence_eq)
    qed
    with True Cons show ?thesis
      by (auto simp: first_success_append split: option.splits)
  next
    case False
    then show ?thesis by (simp split: option.splits)
  qed
qed

lemma match_at_eq:
  "match_at s =
     (if starts_with_ci fence_json s
      then map_option strip_end
             (before_first fence (dropWhile js_space (drop (length fence_json) s)))
      else None)"
  by (simp add: match_at_def greedy_group_eq group_and_fence_eq)

lemma before_first_None_drop:
  "before_first fence s = None \<Longrightarrow> before_first fence (drop n s) = None"
proof (induction s arbitrary: n)
  case Nil
  then show ?case by simp
next
  case (Cons c cs)
  then have "before_first fence cs = None" by (auto split: if_splits)
  with Cons.IH show ?case by (cases n) (use Cons.prems in auto)
qed

lemma after_first_ci_drop:
  "after_first_ci p s = Some rest \<Longrightarrow> \<exists>n. rest = drop n s \<and> length p \<le> n"
proof (induction s)
  case Nil
  then show ?case by (auto split: if_splits)
next
  case (Cons c cs)
  show ?case
  proof (cases "starts_with_ci p (c # cs)")
    case True
    with Cons.prems show ?thesis by auto
  next
    case False
    with Cons.prems Cons.IH obtain n where "rest = drop n cs" "length p \<le> n" by auto
    then have "rest = drop (Suc n) (c # cs)" "length p \<le> Suc n" by auto
    then show ?thesis by blast
  qed
qed

lemma no_fence_later:
  assumes "before_first fence (dropWhile js_space (drop (length fence_json) (c # cs))) = None"
  shows "fenced_group cs = None"
proof (cases "after_first_ci fence_json cs")
  case None
  then show ?thesis by (simp add: fenced_group_def)
next
  case (Some rest)
  let ?L = "length fence_json"
  from after_first_ci_drop [OF Some] obtain n where n: "rest = drop n cs" "?L \<le> n" by auto
  from assms have "before_first fence (drop ?L (c # cs)) = None"
    using before_first_dropWhile [of "drop ?L (c # cs)"] by simp
  then have "before_first fence (drop (Suc n - ?L) (drop ?L (c # cs))) = None"
    by (rule before_first_None_drop)
  moreover have "drop (Suc n - ?L) (drop ?L (c # cs)) = rest" using n by simp
  ultimately have "before_first fence rest = None" by simp
  then have "before_first fence (dropWhile js_space rest) = None"
    using before_first_dropWhile [of rest] by simp
  with Some show ?thesis by (simp add: fenced_group_def)
qed

lemma fenced_match_eq: "fenced_match s = fenced_group s"
proof (induction s)
  case Nil
  then show ?case
    by (cases fence_json)
       (simp_all add: match_at_eq fenced_group_def fence_json_not_Nil fence_not_Nil)
next
  case (Cons c cs)
  show ?case
  proof (cases "starts_with_ci fence_json (c # cs)")
    case True
    then have g: "fenced_group (c # cs) = match_at (c # cs)"
      unfolding fenced_group_def match_at_eq by (simp split: option.splits)
    show ?thesis
    proof (cases "match_at (c # cs)")
      case None
      with True have "before_first fence
          (dropWhile js_space (drop (length fence_json) (c # cs))) = None"
        unfolding match_at_eq by simp
      from no_fence_later [OF this] None g Cons.IH show ?thesis by simp
    next
      case (Some a)
      with g show ?thesis by simp
    qed
  next
    case False
    then have "match_at (c # cs) = None" by (simp add: match_at_eq)
    moreover from False have "fenced_group (c # cs) = fenced_group cs"
      by (simp add: fenced_group_def)
    ultimately show ?thesis using Cons.IH by simp
  qed
qed






lemmas json_simps = json_parse_def skip_ws_def json_ws_def parse_number_def parse_fraction_def
  parse_exponent_def scale10_def object_of_def cons_to_def escape_char_def hex4_def hex_val_def
  is_digit_def digits_val_def digit_val_def

lemmas text_simps = fenced_group_def brace_slice_def indexOf_def lastIndexOf_def slice_def
  strip_end_def js_space_def lower_def fence_def fence_json_def







section \<open>The summary of the indicators\<close>





lemma ToString_or:
  "ToString E (js_or a b) = (if truthy a then ToString E a else ToString E b)"
  by (simp add: js_or_def)




section \<open>The cached daily series\<close>

lemma length_insort_cmp: "length (insort_cmp c x ys) = Suc (length ys)"
  by (induction ys) auto


lemma length_Array_sort: "length (Array_sort c xs) = length xs"
  by (induction xs) (auto simp: Array_sort_def length_insort_cmp)



























lemmas cache_simps = getCachedDailyCloses_def refreshDailyClosesCache_def refresh_body_def
  mapDailyClose_def daily_point_def js_or_def js_nullish_def Array_sort_def
  compare_timestamp_def slice_last_def cache_key_def cache_at_def dailyClosesCache0_def
  daily_body_def point_def is_finite_def



section \<open>The refresh of the cache\<close>

text \<open>
  C1, as the code has it. When the request of any one asset is rejected, the refresh
  replaces nothing: the cache is as before, for all three assets and the time of the
  last refresh, and the failure is logged, not thrown. When the three requests are
  answered and the three bodies map, the three series and the time are replaced.
\<close>

theorem refreshDailyClosesCache_contract:
  "(rb = Inl e \<or> re = Inl e \<or> rs = Inl e \<longrightarrow>
      snd (refreshDailyClosesCache E now (rb, re, rs) c) = c
      \<and> (\<exists>e'. fst (refreshDailyClosesCache E now (rb, re, rs) c) = Failed_to_refresh e'))
   \<and> (mapDailyClose E (get_own bb ''data'') = Inr xs \<longrightarrow>
      mapDailyClose E (get_own eb ''data'') = Inr ys \<longrightarrow>
      mapDailyClose E (get_own sb ''data'') = Inr zs \<longrightarrow>
      refreshDailyClosesCache E now (Inr bb, Inr eb, Inr sb) c =
        (Daily_closes_ready,
         c\<lparr>bitcoin := xs, ethereum := ys, solana := zs, lastFetchedAt := now\<rparr>))"
proof (intro conjI impI)
  assume h: "rb = Inl e \<or> re = Inl e \<or> rs = Inl e"
  then show "snd (refreshDailyClosesCache E now (rb, re, rs) c) = c"
    by (cases rb; cases re; cases rs) (auto simp: refreshDailyClosesCache_def)
  from h show "\<exists>e'. fst (refreshDailyClosesCache E now (rb, re, rs) c) = Failed_to_refresh e'"
    by (cases rb; cases re; cases rs) (auto simp: refreshDailyClosesCache_def)
next
  assume "mapDailyClose E (get_own bb ''data'') = Inr xs"
    "mapDailyClose E (get_own eb ''data'') = Inr ys"
    "mapDailyClose E (get_own sb ''data'') = Inr zs"
  then show "refreshDailyClosesCache E now (Inr bb, Inr eb, Inr sb) c =
        (Daily_closes_ready,
         c\<lparr>bitcoin := xs, ethereum := ys, solana := zs, lastFetchedAt := now\<rparr>)"
    by (simp add: refreshDailyClosesCache_def refresh_body_def)
qed

lemma mapDailyClose_example:
  "mapDailyClose example_engine (get_own (daily_body [point 2 20, point 1 10]) ''data'')
     = Inr [point 1 10, point 2 20]"
  by (simp add: cache_simps)

lemma mapDailyClose_empty:
  "mapDailyClose example_engine (get_own (daily_body []) ''data'') = Inr []"
  by (simp add: cache_simps)

theorem refreshDailyClosesCache_contract_witness:
  "refreshDailyClosesCache example_engine 7
      (Inl (AxiosError ''timeout of 30000ms exceeded''),
       Inr (daily_body [point 2 20, point 1 10]), Inr (daily_body []))
      (dailyClosesCache0\<lparr>ethereum := [point 0 5]\<rparr>)
     = (Failed_to_refresh (AxiosError ''timeout of 30000ms exceeded''),
        dailyClosesCache0\<lparr>ethereum := [point 0 5]\<rparr>)
   \<and> refreshDailyClosesCache example_engine 7
      (Inr (daily_body []), Inr (daily_body [point 2 20, point 1 10]), Inr (daily_body []))
      (dailyClosesCache0\<lparr>ethereum := [point 0 5]\<rparr>)
     = (Daily_closes_ready,
        \<lparr>bitcoin = [], ethereum = [point 1 10, point 2 20], solana = [], lastFetchedAt = 7\<rparr>)"
proof -
  let ?E = example_engine
  let ?c = "dailyClosesCache0\<lparr>ethereum := [point 0 5]\<rparr>"
  let ?to = "Inl (AxiosError ''timeout of 30000ms exceeded'') :: response"
  let ?eth = "daily_body [point 2 20, point 1 10]"
  have "snd (refreshDailyClosesCache ?E 7 (?to, Inr ?eth, Inr (daily_body [])) ?c) = ?c
      \<and> (\<exists>e'. fst (refreshDailyClosesCache ?E 7 (?to, Inr ?eth, Inr (daily_body [])) ?c)
            = Failed_to_refresh e')"
    using refreshDailyClosesCache_contract [where E = ?E and rb = ?to and re = "Inr ?eth"
        and rs = "Inr (daily_body [])" and e = "AxiosError ''timeout of 30000ms exceeded''"
        and c = ?c and now = 7 and bb = VNull and eb = VNull and sb = VNull
        and xs = "[]" and ys = "[]" and zs = "[]"]
    by blast
  then have a: "refreshDailyClosesCache ?E 7 (?to, Inr ?eth, Inr (daily_body [])) ?c
     = (Failed_to_refresh (AxiosError ''timeout of 30000ms exceeded''), ?c)"
    by (simp add: refreshDailyClosesCache_def)
  have b: "refreshDailyClosesCache ?E 7 (Inr (daily_body []), Inr ?eth, Inr (daily_body [])) ?c
     = (Daily_closes_ready,
        \<lparr>bitcoin = [], ethereum = [point 1 10, point 2 20], solana = [], lastFetchedAt = 7\<rparr>)"
    using refreshDailyClosesCache_contract [where E = ?E and bb = "daily_body []"
        and eb = ?eth and sb = "daily_body []" and xs = "[]" and ys = "[point 1 10, point 2 20]"
        and zs = "[]" and c = ?c and now = 7 and rb = ?to and re = ?to and rs = ?to
        and e = TypeError]
      mapDailyClose_example mapDailyClose_empty
    by (simp add: dailyClosesCache0_def)
  from a b show ?thesis by simp
qed

text \<open>
  The claim of C1 as worded fails: with the request for bitcoin rejected and the one for
  ethereum answered, the ethereum series keeps its old value.
\<close>

theorem refreshDailyClosesCache_all_or_nothing:
  "mapDailyClose example_engine (get_own (daily_body [point 2 20, point 1 10]) ''data'')
     = Inr [point 1 10, point 2 20]
   \<and> ethereum (snd (refreshDailyClosesCache example_engine 7
        (Inl (AxiosError ''timeout of 30000ms exceeded''),
         Inr (daily_body [point 2 20, point 1 10]),
         Inr (daily_body [point 2 20, point 1 10]))
        (dailyClosesCache0\<lparr>ethereum := [point 0 5]\<rparr>)))
     = [point 0 5]
   \<and> ethereum (snd (refreshDailyClosesCache example_engine 7
        (Inl (AxiosError ''timeout of 30000ms exceeded''),
         Inr (daily_body [point 2 20, point 1 10]),
         Inr (daily_body [point 2 20, point 1 10]))
        (dailyClosesCache0\<lparr>ethereum := [point 0 5]\<rparr>)))
     \<noteq> [point 1 10, point 2 20]"
  by (simp add: cache_simps)

section \<open>The series of an unknown symbol\<close>

text \<open>
  C10, as the code has it. For every symbol other than \<open>ethereum\<close> and \<open>solana\<close>,
  \<open>getCachedDailyCloses\<close> does what it does for \<open>bitcoin\<close>: it returns the bitcoin
  series of the cache it leaves, the cached one when that is not empty. The result is
  empty exactly when the bitcoin series is empty before and after the one refresh.
\<close>

theorem getCachedDailyCloses_unknown_symbol:
  "symbol \<noteq> ''ethereum'' \<longrightarrow> symbol \<noteq> ''solana'' \<longrightarrow>
     getCachedDailyCloses E now resps c symbol = getCachedDailyCloses E now resps c ''bitcoin''
     \<and> fst (getCachedDailyCloses E now resps c symbol)
         = bitcoin (snd (getCachedDailyCloses E now resps c symbol))
     \<and> (bitcoin c \<noteq> [] \<longrightarrow> getCachedDailyCloses E now resps c symbol = (bitcoin c, c))
     \<and> (fst (getCachedDailyCloses E now resps c symbol) = [] \<longleftrightarrow>
          bitcoin c = [] \<and> bitcoin (snd (refreshDailyClosesCache E now resps c)) = [])"
  by (auto simp: getCachedDailyCloses_def cache_key_def cache_at_def Let_def)

theorem getCachedDailyCloses_unknown_symbol_witness:
  "''dogecoin'' \<noteq> ''ethereum'' \<and> ''dogecoin'' \<noteq> ''solana''
   \<and> getCachedDailyCloses example_engine 7
        (Inr (daily_body []), Inr (daily_body []), Inr (daily_body []))
        (dailyClosesCache0\<lparr>bitcoin := [point 1 10], ethereum := [point 1 2]\<rparr>) ''dogecoin''
      = ([point 1 10], dailyClosesCache0\<lparr>bitcoin := [point 1 10], ethereum := [point 1 2]\<rparr>)"
proof -
  let ?c = "dailyClosesCache0\<lparr>bitcoin := [point 1 10], ethereum := [point 1 2]\<rparr>"
  have n: "''dogecoin'' \<noteq> ''ethereum''" "''dogecoin'' \<noteq> ''solana''" by simp_all
  have "bitcoin ?c \<noteq> []" by simp
  with n getCachedDailyCloses_unknown_symbol [of "''dogecoin''" example_engine 7
      "(Inr (daily_body []), Inr (daily_body []), Inr (daily_body []))" ?c]
  have "getCachedDailyCloses example_engine 7
        (Inr (daily_body []), Inr (daily_body []), Inr (daily_body [])) ?c ''dogecoin''
      = (bitcoin ?c, ?c)" by blast
  with n show ?thesis by simp
qed

text \<open>
  The claim of C10 as worded fails: with an empty cache and the data service down, an
  unknown symbol gets the empty series.
\<close>

theorem getCachedDailyCloses_unknown_symbol_empty:
  "fst (getCachedDailyCloses example_engine 7
        (Inl (AxiosError ''connect ECONNREFUSED''), Inl (AxiosError ''connect ECONNREFUSED''),
         Inl (AxiosError ''connect ECONNREFUSED''))
        dailyClosesCache0 ''dogecoin'') = []"
  by (simp add: cache_simps)

section \<open>The run\<close>

lemma analyze_unfold:
  "analyze E w c =
     (case callLLM w (fst (buildPromptData E w c)) of
        Inl e \<Rightarrow> \<lparr>outcome = Inl e, storeResult_calls = [], cache_after = snd (buildPromptData E w c)\<rparr>
      | Inr aiText \<Rightarrow>
          (case parseJsonFromText E aiText of
             Inl e \<Rightarrow> \<lparr>outcome = Inl e, storeResult_calls = [], cache_after = snd (buildPromptData E w c)\<rparr>
           | Inr parsed \<Rightarrow>
               (case validateOutput parsed of
                  Inl e \<Rightarrow> \<lparr>outcome = Inl e, storeResult_calls = [], cache_after = snd (buildPromptData E w c)\<rparr>
                | Inr _ \<Rightarrow>
                    (case storeResult w (enrich w parsed) of
                       Inl e \<Rightarrow> \<lparr>outcome = Inl e, storeResult_calls = [enrich w parsed],
                                  cache_after = snd (buildPromptData E w c)\<rparr>
                     | Inr storage \<Rightarrow>
                         \<lparr>outcome = Inr (VObj [(''success'', VBool True),
                                                (''analysis'', enrich w parsed),
                                                (''storage'', storage)]),
                          storeResult_calls = [enrich w parsed],
                          cache_after = snd (buildPromptData E w c)\<rparr>))))"
  by (simp add: analyze_def Let_def case_prod_beta split: sum.splits)

lemma parse_failure_kinds:
  assumes "strategy_fence E s = None" "strategy_whole E s = None" "strategy_braces E s = None"
  shows "parseJsonFromText E (VStr s) = Inl (Error ''Empty AI response'')
       \<or> parseJsonFromText E (VStr s) = Inl SyntaxError
       \<or> parseJsonFromText E (VStr s) = Inl NoStructuredOutputError"
  using assms
  by (auto simp: parseJsonFromText_def fenced_match_eq parse_unfenced_def JSON_parse_or_throw_def
      strategy_fence_def fenced_match_eq strategy_whole_def strategy_braces_def NoStructuredOutputError_def
      split: option.splits)

lemma callLLM_example:
  "callLLM (example_world content handle) td = Inr (VStr content)"
  by (simp add: callLLM_def example_world_def completion_text_def completion_body_def js_or_def)

lemma plain_text_example:
  "fenced_group ''The market has not peaked.'' = None"
  "json_parse ''The market has not peaked.'' = None"
  "brace_slice ''The market has not peaked.'' = None"
  by (simp_all add: text_simps json_simps)

lemma braces_text_example:
  "fenced_group ''The market {BTC, ETH} has not peaked.'' = None"
  "json_parse ''The market {BTC, ETH} has not peaked.'' = None"
  "brace_slice ''The market {BTC, ETH} has not peaked.'' = Some ''{BTC, ETH}''"
  "json_parse ''{BTC, ETH}'' = None"
  by (simp_all add: text_simps json_simps)

lemma good_text_example:
  \<open>json_parse ''{"score":8,"analysis":"a","reasoning":"r","key_factors":["x"]}''
     = Some (VObj [(''score'', VNum (Finite 8)), (''analysis'', VStr ''a''),
                   (''reasoning'', VStr ''r''), (''key_factors'', VArr [VStr ''x''])])\<close>
  \<open>fenced_group ''{"score":8,"analysis":"a","reasoning":"r","key_factors":["x"]}'' = None\<close>
  by (simp_all add: text_simps json_simps)

lemma good_text_parsed:
  \<open>parseJsonFromText example_engine
      (VStr ''{"score":8,"analysis":"a","reasoning":"r","key_factors":["x"]}'')
     = Inr (VObj [(''score'', VNum (Finite 8)), (''analysis'', VStr ''a''),
                  (''reasoning'', VStr ''r''), (''key_factors'', VArr [VStr ''x''])])\<close>
  by (simp add: parseJsonFromText_def fenced_match_eq parse_unfenced_def example_engine_def good_text_example)

lemma good_object_valid:
  "validateOutput (VObj [(''score'', VNum (Finite 8)), (''analysis'', VStr ''a''),
                  (''reasoning'', VStr ''r''), (''key_factors'', VArr [VStr ''x''])]) = Inr ()"
  by (simp add: validateOutput_def required_def score_rejected_def is_finite_def)

lemma validateOutput_accepted:
  assumes ok: "validateOutput (VObj kvs) = Inr ()"
  shows "(\<forall>k \<in> set required. map_of kvs k \<noteq> None)
       \<and> (\<exists>r. map_of kvs ''score'' = Some (VNum (Finite r)) \<and> 1 \<le> r \<and> r \<le> 100)
       \<and> (\<exists>xs. map_of kvs ''key_factors'' = Some (VArr xs))"
proof -
  have all: "\<forall>k \<in> set required. map_of kvs k \<noteq> None"
  proof (cases "List.find (\<lambda>k. map_of kvs k = None) required")
    case None
    then show ?thesis by (simp add: find_None_iff)
  next
    case (Some k)
    from validateOutput_missing [OF Some] ok show ?thesis by simp
  qed
  from validateOutput_present [OF all] ok all show ?thesis
    by (simp split: if_splits)
qed

lemma good_run_outcome:
  \<open>outcome (analyze example_engine
      (example_world ''{"score":8,"analysis":"a","reasoning":"r","key_factors":["x"]}'' None)
      dailyClosesCache0)
   = Inr (VObj [(''success'', VBool True),
        (''analysis'',
           VObj [(''score'', VNum (Finite 8)), (''analysis'', VStr ''a''),
                 (''reasoning'', VStr ''r''), (''key_factors'', VArr [VStr ''x'']),
                 (''analysis_metadata'',
                    analysis_metadata (example_world
                      ''{"score":8,"analysis":"a","reasoning":"r","key_factors":["x"]}'' None))]),
        (''storage'', VObj [(''stored'', VBool False),
                            (''reason'', VStr ''firestore_not_available'')])])\<close>
proof -
  have "db (example_world s None) = None" for s
    by (simp add: example_world_def)
  then show ?thesis
    by (simp add: good_text_parsed good_object_valid analyze_unfold callLLM_example
        storeResult_def enrich_def)
qed

lemma loose_text_example:
  \<open>json_parse ''{"score":8.5,"analysis":1,"reasoning":null,"key_factors":[1]}''
     = Some (VObj [(''score'', VNum (Finite (17 / 2))), (''analysis'', VNum (Finite 1)),
                   (''reasoning'', VNull), (''key_factors'', VArr [VNum (Finite 1)])])\<close>
  \<open>fenced_group ''{"score":8.5,"analysis":1,"reasoning":null,"key_factors":[1]}'' = None\<close>
  by (simp_all add: text_simps json_simps)

text \<open>
  C7, as the code has it. When the completion text has no extractable JSON (each of the
  three strategies fails on it), \<open>analyze\<close> throws what \<open>parseJsonFromText\<close> throws and
  never calls \<open>storeResult\<close>. The error is \<open>Empty AI response\<close>, a syntax error or
  \<open>No JSON found in AI response\<close>; it is the last exactly when the text is not empty
  and has neither a fenced block with a non-empty interior nor an opening brace before
  its last closing brace.
\<close>

theorem analyze_no_json:
  "callLLM w (fst (buildPromptData E w c)) = Inr (VStr s) \<longrightarrow>
   strategy_fence E s = None \<longrightarrow> strategy_whole E s = None \<longrightarrow> strategy_braces E s = None \<longrightarrow>
     outcome (analyze E w c) = parseJsonFromText E (VStr s)
     \<and> (outcome (analyze E w c) = Inl (Error ''Empty AI response'')
        \<or> outcome (analyze E w c) = Inl SyntaxError
        \<or> outcome (analyze E w c) = Inl NoStructuredOutputError)
     \<and> (outcome (analyze E w c) = Inl NoStructuredOutputError \<longleftrightarrow>
          s \<noteq> [] \<and> (fenced_match s = None \<or> fenced_match s = Some []) \<and> brace_slice s = None)
     \<and> storeResult_calls (analyze E w c) = []"
proof (intro impI)
  assume t: "callLLM w (fst (buildPromptData E w c)) = Inr (VStr s)"
    and f: "strategy_fence E s = None" "strategy_whole E s = None" "strategy_braces E s = None"
  from parse_failure_kinds [OF f] obtain e where e: "parseJsonFromText E (VStr s) = Inl e"
    by blast
  have o: "outcome (analyze E w c) = parseJsonFromText E (VStr s)"
    and n: "storeResult_calls (analyze E w c) = []"
    using t e by (simp_all add: analyze_unfold)
  have w: "JSON_parse E s = None" using f(2) by (simp add: strategy_whole_def)
  have k: "parseJsonFromText E (VStr s) = Inl NoStructuredOutputError \<longleftrightarrow>
          s \<noteq> [] \<and> (fenced_match s = None \<or> fenced_match s = Some []) \<and> brace_slice s = None"
    using w
    by (cases "s = []")
       (auto simp: parseJsonFromText_def fenced_match_eq parse_unfenced_def JSON_parse_or_throw_def
        NoStructuredOutputError_def split: option.splits if_splits)
  show "outcome (analyze E w c) = parseJsonFromText E (VStr s)
     \<and> (outcome (analyze E w c) = Inl (Error ''Empty AI response'')
        \<or> outcome (analyze E w c) = Inl SyntaxError
        \<or> outcome (analyze E w c) = Inl NoStructuredOutputError)
     \<and> (outcome (analyze E w c) = Inl NoStructuredOutputError \<longleftrightarrow>
          s \<noteq> [] \<and> (fenced_match s = None \<or> fenced_match s = Some []) \<and> brace_slice s = None)
     \<and> storeResult_calls (analyze E w c) = []"
    using o n k parse_failure_kinds [OF f] by simp
qed

theorem analyze_no_json_witness:
  "outcome (analyze example_engine (example_world ''The market has not peaked.'' None)
      dailyClosesCache0) = Inl NoStructuredOutputError
   \<and> storeResult_calls (analyze example_engine (example_world ''The market has not peaked.'' None)
      dailyClosesCache0) = []"
proof -
  let ?s = "''The market has not peaked.''"
  let ?w = "example_world ?s None"
  let ?E = example_engine
  have c: "callLLM ?w (fst (buildPromptData ?E ?w dailyClosesCache0)) = Inr (VStr ?s)"
    by (rule callLLM_example)
  have f: "strategy_fence ?E ?s = None" "strategy_whole ?E ?s = None" "strategy_braces ?E ?s = None"
    by (simp_all add: strategy_fence_def fenced_match_eq strategy_whole_def strategy_braces_def
        example_engine_def plain_text_example)
  have n: "?s \<noteq> [] \<and> (fenced_match ?s = None \<or> fenced_match ?s = Some []) \<and> brace_slice ?s = None"
    by (simp add: fenced_match_eq plain_text_example)
  from analyze_no_json [of ?w ?E dailyClosesCache0 ?s] c f n show ?thesis by blast
qed

text \<open>
  The claim of C7 as worded fails on the error: prose with braces in it ends in a
  syntax error, and the empty text in \<open>Empty AI response\<close>.
\<close>

theorem analyze_no_json_other_errors:
  "extraction_chain example_engine ''The market {BTC, ETH} has not peaked.''
     = Inl NoStructuredOutputError
   \<and> outcome (analyze example_engine (example_world ''The market {BTC, ETH} has not peaked.'' None)
        dailyClosesCache0) = Inl SyntaxError
   \<and> outcome (analyze example_engine (example_world ''The market {BTC, ETH} has not peaked.'' None)
        dailyClosesCache0) \<noteq> Inl NoStructuredOutputError
   \<and> extraction_chain example_engine [] = Inl NoStructuredOutputError
   \<and> outcome (analyze example_engine (example_world [] None) dailyClosesCache0)
        = Inl (Error ''Empty AI response'')"
proof -
  let ?E = example_engine
  let ?s = "''The market {BTC, ETH} has not peaked.''"
  have e: "fenced_group [] = None" "json_parse [] = None" "brace_slice [] = None"
    by (simp_all add: text_simps json_simps)
  have p1: "parseJsonFromText ?E (VStr ?s) = Inl SyntaxError"
    by (simp add: parseJsonFromText_def fenced_match_eq parse_unfenced_def JSON_parse_or_throw_def
        example_engine_def braces_text_example)
  have p2: "parseJsonFromText ?E (VStr []) = Inl (Error ''Empty AI response'')"
    by (simp add: parseJsonFromText_def fenced_match_eq)
  have x1: "extraction_chain ?E ?s = Inl NoStructuredOutputError"
    by (simp add: extraction_chain_def strategy_fence_def fenced_match_eq strategy_whole_def
        strategy_braces_def example_engine_def braces_text_example)
  have x2: "extraction_chain ?E [] = Inl NoStructuredOutputError"
    by (simp add: extraction_chain_def strategy_fence_def fenced_match_eq strategy_whole_def
        strategy_braces_def example_engine_def e)
  show ?thesis
    by (simp add: analyze_unfold callLLM_example p1 p2 x1 x2 NoStructuredOutputError_def)
qed

text \<open>
  C6, as the code has it. In a run whose completion validates, \<open>storeResult\<close> is
  called once, with the enriched object. When the Firestore handle is absent the run
  succeeds with the storage \<open>{stored: false, reason: "firestore_not_available"}\<close>. When
  the handle is there, the run succeeds with the identifier of the new document if
  \<open>add\<close> succeeds, and throws the error of \<open>add\<close> if it is rejected.
\<close>

theorem analyze_storage:
  "callLLM w (fst (buildPromptData E w c)) = Inr t \<longrightarrow> parseJsonFromText E t = Inr parsed \<longrightarrow>
   validateOutput parsed = Inr () \<longrightarrow>
     storeResult_calls (analyze E w c) = [enrich w parsed]
     \<and> (db w = None \<longrightarrow>
          outcome (analyze E w c) =
            Inr (VObj [(''success'', VBool True), (''analysis'', enrich w parsed),
                       (''storage'', VObj [(''stored'', VBool False),
                                           (''reason'', VStr ''firestore_not_available'')])]))
     \<and> (\<forall>add. db w = Some add \<longrightarrow>
          outcome (analyze E w c) =
            (case add (store_doc w (enrich w parsed)) of
               Inl e \<Rightarrow> Inl e
             | Inr ref_id \<Rightarrow>
                 Inr (VObj [(''success'', VBool True), (''analysis'', enrich w parsed),
                            (''storage'', VObj [(''stored'', VBool True),
                                                (''id'', VStr ref_id)])])))"
  by (auto simp: analyze_unfold storeResult_def split: sum.splits option.splits)

theorem analyze_storage_witness:
  \<open>outcome (analyze example_engine
      (example_world ''{"score":8,"analysis":"a","reasoning":"r","key_factors":["x"]}'' None)
      dailyClosesCache0)
   = Inr (VObj [(''success'', VBool True),
        (''analysis'',
           VObj [(''score'', VNum (Finite 8)), (''analysis'', VStr ''a''),
                 (''reasoning'', VStr ''r''), (''key_factors'', VArr [VStr ''x'']),
                 (''analysis_metadata'',
                    VObj [(''model'', VStr ''openai/gpt-5-mini''),
                          (''data_sources'',
                             VArr [VStr ''BULL_PEAK'', VStr ''BTC'', VStr ''ETH'', VStr ''SOL'']),
                          (''collection_duration_ms'', VNum (Finite 3000))])]),
        (''storage'', VObj [(''stored'', VBool False),
                            (''reason'', VStr ''firestore_not_available'')])])
   \<and> outcome (analyze example_engine
      (example_world ''{"score":8,"analysis":"a","reasoning":"r","key_factors":["x"]}''
         (Some accepting_store))
      dailyClosesCache0)
   = Inr (VObj [(''success'', VBool True),
        (''analysis'',
           VObj [(''score'', VNum (Finite 8)), (''analysis'', VStr ''a''),
                 (''reasoning'', VStr ''r''), (''key_factors'', VArr [VStr ''x'']),
                 (''analysis_metadata'',
                    VObj [(''model'', VStr ''openai/gpt-5-mini''),
                          (''data_sources'',
                             VArr [VStr ''BULL_PEAK'', VStr ''BTC'', VStr ''ETH'', VStr ''SOL'']),
                          (''collection_duration_ms'', VNum (Finite 3000))])]),
        (''storage'', VObj [(''stored'', VBool True), (''id'', VStr ''Zk3PqW9'')])])\<close>
proof -
  let ?s = \<open>''{"score":8,"analysis":"a","reasoning":"r","key_factors":["x"]}''\<close>
  let ?w = "example_world ?s None"
  let ?p = "VObj [(''score'', VNum (Finite 8)), (''analysis'', VStr ''a''),
                  (''reasoning'', VStr ''r''), (''key_factors'', VArr [VStr ''x''])]"
  have c: "callLLM ?w (fst (buildPromptData example_engine ?w dailyClosesCache0)) = Inr (VStr ?s)"
    by (rule callLLM_example)
  have d: "db ?w = None" by (simp add: example_world_def)
  from analyze_storage [of ?w example_engine dailyClosesCache0 "VStr ?s" ?p]
    c good_text_parsed good_object_valid d
  have "outcome (analyze example_engine ?w dailyClosesCache0) =
            Inr (VObj [(''success'', VBool True), (''analysis'', enrich ?w ?p),
                       (''storage'', VObj [(''stored'', VBool False),
                                           (''reason'', VStr ''firestore_not_available'')])])"
    by blast
  then have first: "outcome (analyze example_engine ?w dailyClosesCache0) =
      Inr (VObj [(''success'', VBool True),
        (''analysis'',
           VObj [(''score'', VNum (Finite 8)), (''analysis'', VStr ''a''),
                 (''reasoning'', VStr ''r''), (''key_factors'', VArr [VStr ''x'']),
                 (''analysis_metadata'',
                    VObj [(''model'', VStr ''openai/gpt-5-mini''),
                          (''data_sources'',
                             VArr [VStr ''BULL_PEAK'', VStr ''BTC'', VStr ''ETH'', VStr ''SOL'']),
                          (''collection_duration_ms'', VNum (Finite 3000))])]),
        (''storage'', VObj [(''stored'', VBool False),
                            (''reason'', VStr ''firestore_not_available'')])])"
    by (simp add: enrich_def analysis_metadata_def example_world_def)
  let ?w2 = "example_world ?s (Some accepting_store)"
  have c2: "callLLM ?w2 (fst (buildPromptData example_engine ?w2 dailyClosesCache0)) = Inr (VStr ?s)"
    by (rule callLLM_example)
  have d2: "db ?w2 = Some accepting_store" by (simp add: example_world_def)
  from analyze_storage [of ?w2 example_engine dailyClosesCache0 "VStr ?s" ?p]
    c2 good_text_parsed good_object_valid d2
  have "outcome (analyze example_engine ?w2 dailyClosesCache0) =
      (case accepting_store (store_doc ?w2 (enrich ?w2 ?p)) of
         Inl e \<Rightarrow> Inl e
       | Inr ref_id \<Rightarrow>
           Inr (VObj [(''success'', VBool True), (''analysis'', enrich ?w2 ?p),
                      (''storage'', VObj [(''stored'', VBool True), (''id'', VStr ref_id)])]))"
    by blast
  then have second: "outcome (analyze example_engine ?w2 dailyClosesCache0) =
      Inr (VObj [(''success'', VBool True),
        (''analysis'',
           VObj [(''score'', VNum (Finite 8)), (''analysis'', VStr ''a''),
                 (''reasoning'', VStr ''r''), (''key_factors'', VArr [VStr ''x'']),
                 (''analysis_metadata'',
                    VObj [(''model'', VStr ''openai/gpt-5-mini''),
                          (''data_sources'',
                             VArr [VStr ''BULL_PEAK'', VStr ''BTC'', VStr ''ETH'', VStr ''SOL'']),
                          (''collection_duration_ms'', VNum (Finite 3000))])]),
        (''storage'', VObj [(''stored'', VBool True), (''id'', VStr ''Zk3PqW9'')])])"
    by (simp add: accepting_store_def enrich_def analysis_metadata_def example_world_def)
  from first second show ?thesis by simp
qed

text \<open>
  The claim of C6 as worded fails: a store that is there and rejects the write makes the
  run fail, although the completion validated.
\<close>

theorem analyze_store_failure_propagates:
  \<open>parseJsonFromText example_engine
      (VStr ''{"score":8,"analysis":"a","reasoning":"r","key_factors":["x"]}'')
     = Inr (VObj [(''score'', VNum (Finite 8)), (''analysis'', VStr ''a''),
                  (''reasoning'', VStr ''r''), (''key_factors'', VArr [VStr ''x''])])
   \<and> validateOutput (VObj [(''score'', VNum (Finite 8)), (''analysis'', VStr ''a''),
                  (''reasoning'', VStr ''r''), (''key_factors'', VArr [VStr ''x''])]) = Inr ()
   \<and> outcome (analyze example_engine
        (example_world ''{"score":8,"analysis":"a","reasoning":"r","key_factors":["x"]}''
           (Some rejecting_store))
        dailyClosesCache0)
     = Inl (FirestoreError ''14 UNAVAILABLE'')\<close>
proof -
  have "db (example_world s (Some h)) = Some h" for s h
    by (simp add: example_world_def)
  then show ?thesis
    by (simp add: good_text_parsed good_object_valid analyze_unfold callLLM_example
        storeResult_def rejecting_store_def)
qed

text \<open>
  C9, as the code has it. The analysis of every successful run is an object whose
  \<open>score\<close> is a finite number from 1 to 100, that has an \<open>analysis\<close> and a \<open>reasoning\<close>,
  whose \<open>key_factors\<close> is an array, and whose \<open>analysis_metadata\<close> is that of the run.
\<close>

theorem analyze_result_shape:
  "outcome (analyze E w c) = Inr r \<longrightarrow>
     get_own r ''success'' = VBool True
     \<and> (\<exists>kvs x xs. get_own r ''analysis'' = VObj kvs
          \<and> map_of kvs ''score'' = Some (VNum (Finite x)) \<and> 1 \<le> x \<and> x \<le> 100
          \<and> map_of kvs ''analysis'' \<noteq> None
          \<and> map_of kvs ''reasoning'' \<noteq> None
          \<and> map_of kvs ''key_factors'' = Some (VArr xs)
          \<and> map_of kvs ''analysis_metadata'' = Some (analysis_metadata w))"
proof
  assume ok: "outcome (analyze E w c) = Inr r"
  then obtain t parsed storage where
    v: "validateOutput parsed = Inr ()" and
    r: "r = VObj [(''success'', VBool True), (''analysis'', enrich w parsed), (''storage'', storage)]"
    by (auto simp: analyze_unfold split: sum.splits)
  from validateOutput_accepts_object [OF v] obtain ps where ps: "parsed = VObj ps" by blast
  from v ps have req: "\<forall>k \<in> set required. map_of ps k \<noteq> None"
    and sc: "\<exists>x. map_of ps ''score'' = Some (VNum (Finite x)) \<and> 1 \<le> x \<and> x \<le> 100"
    and kf: "\<exists>xs. map_of ps ''key_factors'' = Some (VArr xs)"
    using validateOutput_accepted [of ps] by blast+
  let ?kvs = "AList.update ''analysis_metadata'' (analysis_metadata w) ps"
  have e: "enrich w parsed = VObj ?kvs" by (simp add: enrich_def ps)
  have m: "map_of ?kvs k = (if k = ''analysis_metadata'' then Some (analysis_metadata w) else map_of ps k)" for k
    by (simp add: update_conv')
  from req have "map_of ps ''analysis'' \<noteq> None" "map_of ps ''reasoning'' \<noteq> None"
    by (simp_all add: required_def)
  with sc kf show "get_own r ''success'' = VBool True
     \<and> (\<exists>kvs x xs. get_own r ''analysis'' = VObj kvs
          \<and> map_of kvs ''score'' = Some (VNum (Finite x)) \<and> 1 \<le> x \<and> x \<le> 100
          \<and> map_of kvs ''analysis'' \<noteq> None
          \<and> map_of kvs ''reasoning'' \<noteq> None
          \<and> map_of kvs ''key_factors'' = Some (VArr xs)
          \<and> map_of kvs ''analysis_metadata'' = Some (analysis_metadata w))"
    unfolding r e by (auto simp: m)
qed

theorem analyze_result_shape_witness:
  \<open>outcome (analyze example_engine
      (example_world ''{"score":8,"analysis":"a","reasoning":"r","key_factors":["x"]}'' None)
      dailyClosesCache0)
   = Inr (VObj [(''success'', VBool True),
        (''analysis'',
           VObj [(''score'', VNum (Finite 8)), (''analysis'', VStr ''a''),
                 (''reasoning'', VStr ''r''), (''key_factors'', VArr [VStr ''x'']),
                 (''analysis_metadata'',
                    analysis_metadata (example_world
                      ''{"score":8,"analysis":"a","reasoning":"r","key_factors":["x"]}'' None))]),
        (''storage'', VObj [(''stored'', VBool False),
                            (''reason'', VStr ''firestore_not_available'')])])
   \<and> (\<exists>kvs x xs.
        get_own (VObj [(''success'', VBool True),
          (''analysis'',
             VObj [(''score'', VNum (Finite 8)), (''analysis'', VStr ''a''),
                   (''reasoning'', VStr ''r''), (''key_factors'', VArr [VStr ''x'']),
                   (''analysis_metadata'',
                      analysis_metadata (example_world
                        ''{"score":8,"analysis":"a","reasoning":"r","key_factors":["x"]}'' None))]),
          (''storage'', VObj [(''stored'', VBool False),
                              (''reason'', VStr ''firestore_not_available'')])]) ''analysis''
          = VObj kvs
        \<and> map_of kvs ''score'' = Some (VNum (Finite x)) \<and> 1 \<le> x \<and> x \<le> 100
        \<and> map_of kvs ''key_factors'' = Some (VArr xs))\<close>
  using good_run_outcome
    analyze_result_shape [where E = example_engine and c = dailyClosesCache0 and w =
      \<open>example_world ''{"score":8,"analysis":"a","reasoning":"r","key_factors":["x"]}'' None\<close>]
  by blast

text \<open>
  The claim of C9 as worded fails: a score of 8.5, an analysis that is a number, a
  reasoning that is \<open>null\<close> and a key factor that is a number pass the validation.
\<close>

theorem analyze_result_not_typed:
  \<open>outcome (analyze example_engine
      (example_world ''{"score":8.5,"analysis":1,"reasoning":null,"key_factors":[1]}'' None)
      dailyClosesCache0)
   = Inr (VObj [(''success'', VBool True),
        (''analysis'',
           VObj [(''score'', VNum (Finite (17 / 2))), (''analysis'', VNum (Finite 1)),
                 (''reasoning'', VNull), (''key_factors'', VArr [VNum (Finite 1)]),
                 (''analysis_metadata'',
                    analysis_metadata (example_world
                      ''{"score":8.5,"analysis":1,"reasoning":null,"key_factors":[1]}'' None))]),
        (''storage'', VObj [(''stored'', VBool False),
                            (''reason'', VStr ''firestore_not_available'')])])
   \<and> \<not> is_AssessmentResult
         (VObj [(''score'', VNum (Finite (17 / 2))), (''analysis'', VNum (Finite 1)),
                 (''reasoning'', VNull), (''key_factors'', VArr [VNum (Finite 1)]),
                 (''analysis_metadata'',
                    analysis_metadata (example_world
                      ''{"score":8.5,"analysis":1,"reasoning":null,"key_factors":[1]}'' None))])
   \<and> \<not> is_integer (17 / 2)\<close>
proof -
  let ?s = \<open>''{"score":8.5,"analysis":1,"reasoning":null,"key_factors":[1]}''\<close>
  let ?p = "VObj [(''score'', VNum (Finite (17 / 2))), (''analysis'', VNum (Finite 1)),
                   (''reasoning'', VNull), (''key_factors'', VArr [VNum (Finite 1)])]"
  have d: "db (example_world s None) = None" for s
    by (simp add: example_world_def)
  have p: "parseJsonFromText example_engine (VStr ?s) = Inr ?p"
    by (simp add: parseJsonFromText_def fenced_match_eq parse_unfenced_def example_engine_def loose_text_example)
  have v: "validateOutput ?p = Inr ()"
    by (simp add: validateOutput_def required_def score_rejected_def is_finite_def)
  have i: "\<not> is_integer (17 / 2)" by (simp add: is_integer_def)
  show ?thesis
    using i
    by (simp add: p v d analyze_unfold callLLM_example storeResult_def enrich_def
        is_AssessmentResult_def)
qed

end
